theory Spec2Isabelle
  imports Main "HOL-Library.Sublist"
begin

section \<open>The products block: parse the rows, fetch each record, render the cards\<close>

text \<open>
  The repository holds two revisions of \<^verbatim>\<open>blocks/products/products.js\<close>. The item
  parser and the record fetcher are the same text in both; the card renderer and the
  orchestrator differ in markup, and each has one definition per revision, with the
  suffix \<open>1\<close> for the first revision and \<open>2\<close> for the second.

  The calls to \<^verbatim>\<open>log\<close> write to the console only and are left out of the model.
\<close>

subsection \<open>JavaScript strings\<close>

text \<open>
  A string is a list of code units; \<^typ>\<open>char\<close> covers the code units U+0000 to U+00FF.
  \<^verbatim>\<open>String.prototype.trim\<close> removes white space and line terminators at both ends; in
  that range these are TAB, LF, VT, FF, CR, SPACE and NBSP.
\<close>

definition is_whitespace :: "char \<Rightarrow> bool" where
  "is_whitespace c =
     (c = CHR 0x09 \<or> c = CHR 0x0A \<or> c = CHR 0x0B \<or> c = CHR 0x0C \<or> c = CHR 0x0D
      \<or> c = CHR 0x20 \<or> c = CHR 0xA0)"

definition trim :: "string \<Rightarrow> string" where
  "trim s = rev (dropWhile is_whitespace (rev (dropWhile is_whitespace s)))"

text \<open>\<^verbatim>\<open>s || d\<close> on two strings: the empty string is the only falsy string.\<close>

definition str_or :: "string \<Rightarrow> string \<Rightarrow> string" where
  "str_or s d = (if s \<noteq> [] then s else d)"

subsection \<open>Item parser\<close>

text \<open>
  The block element is read through \<^verbatim>\<open>block.children\<close> and \<^verbatim>\<open>row.children\<close> only, and
  a cell through its \<^verbatim>\<open>textContent\<close>: a cell is that text, a row the list of its cells,
  the block the list of its rows.
\<close>

type_synonym cell = string
type_synonym row = "cell list"

record ProductItem =
  productName :: string
  fragmentPath :: string

text \<open>
  The body of \<^verbatim>\<open>rows.forEach((row, index) => ...)\<close>: \<open>items\<close> is the array built so
  far, \<^verbatim>\<open>items.push\<close> appends. The index is used for logging only.
\<close>

definition parse_row :: "ProductItem list \<Rightarrow> row \<Rightarrow> ProductItem list" where
  "parse_row items cells =
     (if length cells \<ge> 2 then
        (let name = str_or (trim (cells ! 0)) '''';
             path = str_or (trim (cells ! 1)) ''''
         in if path \<noteq> []
            then items @ [\<lparr>productName = name, fragmentPath = path\<rparr>]
            else items)
      else items)"

definition parseProductItems :: "row list \<Rightarrow> ProductItem list" where
  "parseProductItems rows = foldl parse_row [] rows"

text \<open>The specification's words: which rows qualify, and the item a qualifying row gives.\<close>

definition qualifying_row :: "row \<Rightarrow> bool" where
  "qualifying_row cells = (length cells \<ge> 2 \<and> trim (cells ! 1) \<noteq> [])"

definition item_of_row :: "row \<Rightarrow> ProductItem" where
  "item_of_row cells = \<lparr>productName = trim (cells ! 0), fragmentPath = trim (cells ! 1)\<rparr>"

subsection \<open>JavaScript values and errors\<close>

text \<open>
  A thrown value is an error object; the program reads its \<^verbatim>\<open>message\<close> only.
\<close>

datatype js_error = Error string | TypeError string | SyntaxError string

fun message :: "js_error \<Rightarrow> string" where
  "message (Error m) = m"
| "message (TypeError m) = m"
| "message (SyntaxError m) = m"

text \<open>
  What \<^verbatim>\<open>response.json()\<close> can give, and \<^verbatim>\<open>undefined\<close> for a property that is not
  there. The program does no arithmetic: a number is carried by the string that
  \<^verbatim>\<open>Number.prototype.toString\<close> gives for it (\<open>''0''\<close> for both zeros). An object is
  the list of its own properties, the first binding of a key being its value.
\<close>

datatype jsval =
    JUndefined
  | JNull
  | JBool bool
  | JNum string
  | JStr string
  | JArr "jsval list"
  | JObj "(string \<times> jsval) list"

fun truthy :: "jsval \<Rightarrow> bool" where
  "truthy JUndefined = False"
| "truthy JNull = False"
| "truthy (JBool b) = b"
| "truthy (JNum n) = (n \<noteq> ''0'' \<and> n \<noteq> ''NaN'')"
| "truthy (JStr s) = (s \<noteq> [])"
| "truthy (JArr xs) = True"
| "truthy (JObj kvs) = True"

text \<open>\<^verbatim>\<open>a || b\<close>: the left operand when it is truthy, the right one otherwise.\<close>

definition js_or :: "jsval \<Rightarrow> jsval \<Rightarrow> jsval" where
  "js_or a b = (if truthy a then a else b)"

text \<open>
  \<^verbatim>\<open>v?.k\<close>, for the property names the program reads (none of them is a property of a
  string, a number, a boolean or an array, nor of \<^verbatim>\<open>Object.prototype\<close>). The program
  writes \<^verbatim>\<open>v.k\<close> only where \<open>v\<close> is known to be truthy, where both agree.
\<close>

fun opt_get :: "jsval \<Rightarrow> string \<Rightarrow> jsval" where
  "opt_get (JObj kvs) k = (case map_of kvs k of Some v \<Rightarrow> v | None \<Rightarrow> JUndefined)"
| "opt_get v k = JUndefined"

text \<open>Sequencing of steps that may throw: the first error ends the sequence.\<close>

definition and_then :: "js_error + 'a \<Rightarrow> ('a \<Rightarrow> js_error + 'b) \<Rightarrow> js_error + 'b" where
  "and_then m f = (case m of Inl error \<Rightarrow> Inl error | Inr x \<Rightarrow> f x)"

text \<open>
  The conversion to a string that a template literal and a DOM attribute setter apply.
  An array joins its elements with commas, \<^verbatim>\<open>null\<close> and \<^verbatim>\<open>undefined\<close> giving the
  empty string; an object gives \<^verbatim>\<open>[object Object]\<close>, unless it has an own property
  \<^verbatim>\<open>toString\<close>, which parsed JSON never makes callable: then the conversion throws.
\<close>

fun ToString :: "jsval \<Rightarrow> js_error + string"
  and join_elements :: "jsval list \<Rightarrow> js_error + string" where
  "ToString JUndefined = Inr ''undefined''"
| "ToString JNull = Inr ''null''"
| "ToString (JBool b) = Inr (if b then ''true'' else ''false'')"
| "ToString (JNum n) = Inr n"
| "ToString (JStr s) = Inr s"
| "ToString (JArr xs) = join_elements xs"
| "ToString (JObj kvs) =
     (if map_of kvs ''toString'' = None then Inr ''[object Object]''
      else Inl (TypeError ''Cannot convert object to primitive value''))"
| "join_elements [] = Inr []"
| "join_elements (x # xs) =
     and_then (if x = JNull \<or> x = JUndefined then Inr [] else ToString x)
       (\<lambda>first. if xs = [] then Inr first
                else and_then (join_elements xs) (\<lambda>others. Inr (first @ '','' @ others)))"

text \<open>The decimal digits of a number, as a template literal prints an integer.\<close>

function string_of_nat :: "nat \<Rightarrow> string" where
  "string_of_nat n =
     (if n < 10 then [char_of (48 + n)]
      else string_of_nat (n div 10) @ [char_of (48 + n mod 10)])"
  by pat_completeness auto
termination
  by (relation "measure id") auto

declare string_of_nat.simps [simp del]

subsection \<open>Record fetcher\<close>

definition AEM_AUTHOR_URL :: string where
  "AEM_AUTHOR_URL = ''https://author-p9606-e71941.adobeaemcloud.com''"

definition GRAPHQL_ENDPOINT :: string where
  "GRAPHQL_ENDPOINT = ''/graphql/execute.json/jan-cf-models/getProductCreditCardByPath;path=''"

text \<open>
  The network is outside the program. A call \<^verbatim>\<open>fetch(url, options)\<close> either rejects
  (a network failure) or resolves with a response; \<^verbatim>\<open>response.json()\<close> in turn rejects
  (the body is not JSON) or resolves with the parsed value. \<^verbatim>\<open>response.ok\<close> is the
  platform's: the status is in the range 200 to 299.
\<close>

record fetch_options =
  credentials :: string

record request =
  url :: string
  options :: fetch_options

record response =
  status :: nat
  statusText :: string
  json :: "js_error + jsval"

datatype fetch_outcome = Rejects js_error | Resolves response

type_synonym network = "request \<Rightarrow> fetch_outcome"

definition ok :: "response \<Rightarrow> bool" where
  "ok response = (200 \<le> status response \<and> status response \<le> 299)"

text \<open>
  The body of the \<^verbatim>\<open>try\<close> after the response has come: the status check, the parse
  and the selection of the nested item.
\<close>

definition read_response :: "response \<Rightarrow> js_error + jsval" where
  "read_response response =
     (if \<not> ok response then
        Inl (Error (''HTTP error! status: '' @ string_of_nat (status response)
                    @ '' - '' @ statusText response))
      else
        and_then (json response) (\<lambda>cf.
          let cfData =
                js_or (opt_get (opt_get (opt_get cf ''data'') ''productCreditCardModelByPath'')
                         ''item'')
                      (JStr '''')
          in if \<not> truthy cfData then Inr JNull else Inr cfData))"

text \<open>
  The function gives the requests it has issued and how its promise settles: \<open>Inl\<close> the
  error it rejects with, \<open>Inr\<close> the value it resolves with (\<open>JNull\<close> for "no record").
  The \<^verbatim>\<open>catch\<close> wraps every error of the body in a new \<^verbatim>\<open>Error\<close>.
\<close>

definition getProductDataByContentPath ::
  "network \<Rightarrow> string \<Rightarrow> request list \<times> (js_error + jsval)" where
  "getProductDataByContentPath fetch contentPath =
     (let url = AEM_AUTHOR_URL @ GRAPHQL_ENDPOINT @ contentPath;
          options = \<lparr>credentials = ''include''\<rparr>;
          request = \<lparr>url = url, options = options\<rparr>
      in ([request],
          case (case fetch request of
                  Rejects error \<Rightarrow> Inl error
                | Resolves response \<Rightarrow> read_response response)
          of Inl error \<Rightarrow> Inl (Error (''Failed to fetch GraphQL Data: '' @ message error))
           | Inr cfData \<Rightarrow> Inr cfData))"

subsection \<open>String methods the renderer uses\<close>

text \<open>
  \<^verbatim>\<open>text.replace(/pat/g, rep)\<close> for a pattern that is a fixed, non-empty text: the
  matches are found from the left and do not overlap.
\<close>

function replaceAll :: "string \<Rightarrow> string \<Rightarrow> string \<Rightarrow> string" where
  "replaceAll pat rep [] = []"
| "replaceAll pat rep (c # cs) =
     (if pat \<noteq> [] \<and> prefix pat (c # cs)
      then rep @ replaceAll pat rep (drop (length pat) (c # cs))
      else c # replaceAll pat rep cs)"
  by pat_completeness auto
termination
  by (relation "measure (\<lambda>(pat, rep, s). length s)") auto

text \<open>\<^verbatim>\<open>text.split(sep)\<close> for a separator of one character.\<close>

fun split_on :: "char \<Rightarrow> string \<Rightarrow> string list" where
  "split_on sep [] = [[]]"
| "split_on sep (c # cs) =
     (if c = sep then [] # split_on sep cs
      else (case split_on sep cs of
              [] \<Rightarrow> [[c]]
            | line # lines \<Rightarrow> (c # line) # lines))"

text \<open>\<^verbatim>\<open>line.includes(text)\<close>.\<close>

definition str_includes :: "string \<Rightarrow> string \<Rightarrow> bool" where
  "str_includes line text = sublist text line"

subsection \<open>Elements\<close>

text \<open>
  An element the program creates is read back through its class name and the markup
  assigned to \<^verbatim>\<open>innerHTML\<close>.
\<close>

record element =
  className :: string
  innerHTML :: string

text \<open>
  \<^verbatim>\<open>picture.outerHTML\<close> is the platform's serialisation of the \<^verbatim>\<open>picture\<close> element
  with its \<^verbatim>\<open>img\<close> child: the attributes in the order they were set, each value
  escaped as the HTML standard escapes an attribute value. \<open>style\<close> is the text of the
  \<^verbatim>\<open>style\<close> attribute, empty when no style was set.
\<close>

definition escape_attribute :: "string \<Rightarrow> string" where
  \<open>escape_attribute s =
     concat (map (\<lambda>c. if c = CHR ''&'' then ''&amp;''
                       else if c = CHR 0xA0 then ''&nbsp;''
                       else if c = CHR ''<'' then ''&lt;''
                       else if c = CHR ''>'' then ''&gt;''
                       else if c = CHR 0x22 then ''&quot;''
                       else [c]) s)\<close>

definition picture_outerHTML :: "string \<Rightarrow> string \<Rightarrow> string \<Rightarrow> string \<Rightarrow> string" where
  \<open>picture_outerHTML src alt loading style =
     ''<picture><img src="'' @ escape_attribute src
     @ ''" alt="'' @ escape_attribute alt
     @ ''" loading="'' @ escape_attribute loading @ ''"''
     @ (if style = [] then [] else '' style="'' @ escape_attribute style @ ''"'')
     @ ''></picture>''\<close>

subsection \<open>Card renderer, first revision\<close>

text \<open>
  The fallback markup, for a falsy \<^verbatim>\<open>fragmentData\<close>; \<open>name\<close> is the parameter
  \<^verbatim>\<open>productName\<close>.
\<close>

definition fallback_html1 :: "string \<Rightarrow> string" where
  \<open>fallback_html1 name =
     ''\<newline>      <div class="products-card-body">\<newline>        <h3 class="products-card-title">''
     @ str_or name ''Product''
     @ ''</h3>\<newline>        <p class="products-card-error">Content fragment data not available</p>\<newline>      </div>\<newline>    ''\<close>

text \<open>
  \<^verbatim>\<open>imageHtml\<close>: empty unless \<^verbatim>\<open>creditCardImage._authorUrl\<close> is truthy. The two
  attribute setters convert their values to strings.
\<close>

definition imageHtml1 :: "jsval \<Rightarrow> js_error + string" where
  \<open>imageHtml1 fragmentData =
     (if truthy (opt_get (opt_get fragmentData ''creditCardImage'') ''_authorUrl'') then
        (let authorUrl = opt_get (opt_get fragmentData ''creditCardImage'') ''_authorUrl'';
             altText = js_or (opt_get fragmentData ''creditCardName'') (JStr ''Credit Card'')
         in and_then (ToString authorUrl) (\<lambda>src.
            and_then (ToString altText) (\<lambda>alt.
            Inr (''<div class="products-card-image">''
                 @ picture_outerHTML src alt ''lazy'' ''width: 100%; height: auto;''
                 @ ''</div>''))))
      else Inr [])\<close>

text \<open>
  \<^verbatim>\<open>formatText\<close>. The pattern of the third \<^verbatim>\<open>replace\<close> is written as the escape
  u003E, which in a regular expression stands for the character U+003E itself. A truthy value that is not a string has no \<^verbatim>\<open>replace\<close> method: the call
  throws.
\<close>

definition formatText1 :: "jsval \<Rightarrow> js_error + string" where
  \<open>formatText1 text =
     (if \<not> truthy text then Inr []
      else case text of
             JStr s \<Rightarrow>
               Inr (trim (replaceAll [CHR 0x3E] ''>''
                            (replaceAll ''\<newline>'' ''<br>''
                               (replaceAll ''\<newline>\<newline>'' ''</p><p>'' s))))
           | _ \<Rightarrow> Inl (TypeError ''text.replace is not a function''))\<close>

text \<open>
  One optional text block of the template:
  \<^verbatim>\<open>${text ? `<div class="..."><p>${formatText(text)}</p></div>` : ''}\<close>.
\<close>

definition text_block1 :: "string \<Rightarrow> jsval \<Rightarrow> js_error + string" where
  \<open>text_block1 cls text =
     (if truthy text then
        and_then (formatText1 text) (\<lambda>formatted.
          Inr (''<div class="'' @ cls @ ''"><p>'' @ formatted @ ''</p></div>''))
      else Inr [])\<close>

text \<open>The template of \<^verbatim>\<open>cardContent\<close>, with its five interpolations.\<close>

definition cardContent1 :: "string \<Rightarrow> string \<Rightarrow> string \<Rightarrow> string \<Rightarrow> string \<Rightarrow> string" where
  \<open>cardContent1 imageHtml title description promo notes =
     ''\<newline>    '' @ imageHtml
     @ ''\<newline>    <div class="products-card-body">\<newline>      <h3 class="products-card-title">''
     @ title
     @ ''</h3>\<newline>      '' @ description
     @ ''\<newline>      '' @ promo
     @ ''\<newline>      '' @ notes
     @ ''\<newline>    </div>\<newline>  ''\<close>

definition createProductCard1 :: "string \<Rightarrow> jsval \<Rightarrow> js_error + element" where
  \<open>createProductCard1 name fragmentData =
     (if \<not> truthy fragmentData then
        Inr \<lparr>className = ''products-card'', innerHTML = fallback_html1 name\<rparr>
      else
        and_then (imageHtml1 fragmentData) (\<lambda>imageHtml.
        let description =
              js_or (opt_get (opt_get fragmentData ''creditCardDescription'') ''plaintext'')
                    (JStr '''');
            promo = js_or (opt_get (opt_get fragmentData ''promo'') ''plaintext'') (JStr '''');
            notes = js_or (opt_get (opt_get fragmentData ''notes'') ''plaintext'') (JStr '''')
        in
        and_then (ToString (js_or (js_or (opt_get fragmentData ''creditCardName'')
                                         (JStr name))
                                  (JStr ''Product''))) (\<lambda>title.
        and_then (text_block1 ''products-card-description'' description) (\<lambda>descriptionHtml.
        and_then (text_block1 ''products-card-promo'' promo) (\<lambda>promoHtml.
        and_then (text_block1 ''products-card-notes'' notes) (\<lambda>notesHtml.
        Inr \<lparr>className = ''products-card'',
             innerHTML = cardContent1 imageHtml title descriptionHtml promoHtml notesHtml\<rparr>))))))\<close>

subsection \<open>Card renderer, second revision\<close>

definition fallback_html2 :: "string \<Rightarrow> string" where
  \<open>fallback_html2 name =
     ''\<newline>      <div class="product-card-body">\<newline>        <h3>''
     @ str_or name ''Product''
     @ ''</h3>\<newline>        <p>Content fragment data not available</p>\<newline>      </div>\<newline>    ''\<close>

text \<open>The image is built as in the first revision, without the inline style.\<close>

definition imageHtml2 :: "jsval \<Rightarrow> js_error + string" where
  \<open>imageHtml2 fragmentData =
     (if truthy (opt_get (opt_get fragmentData ''creditCardImage'') ''_authorUrl'') then
        (let authorUrl = opt_get (opt_get fragmentData ''creditCardImage'') ''_authorUrl'';
             altText = js_or (opt_get fragmentData ''creditCardName'') (JStr ''Credit Card'')
         in and_then (ToString authorUrl) (\<lambda>src.
            and_then (ToString altText) (\<lambda>alt.
            Inr (''<div class="product-card-image">''
                 @ picture_outerHTML src alt ''lazy'' []
                 @ ''</div>''))))
      else Inr [])\<close>

text \<open>\<^verbatim>\<open>formatText\<close> of this revision keeps the line breaks.\<close>

definition formatText2 :: "jsval \<Rightarrow> js_error + string" where
  \<open>formatText2 text =
     (if \<not> truthy text then Inr []
      else case text of
             JStr s \<Rightarrow> Inr (trim (replaceAll [CHR 0x3E] ''>'' s))
           | _ \<Rightarrow> Inl (TypeError ''text.replace is not a function''))\<close>

text \<open>
  The lines both formatters work on:
  \<^verbatim>\<open>formatted.split('\n').filter(line => line.trim())\<close>.
\<close>

definition content_lines :: "string \<Rightarrow> string list" where
  "content_lines formatted = filter (\<lambda>line. trim line \<noteq> []) (split_on CHR 0x0A formatted)"

text \<open>The body of \<^verbatim>\<open>lines.forEach\<close> in \<^verbatim>\<open>formatPromoContent\<close>.\<close>

definition promo_line :: "string \<Rightarrow> string \<Rightarrow> string" where
  \<open>promo_line content line =
     (if str_includes line ''special offer:'' \<or> str_includes line ''Rewards special offer:''
      then content @ ''<h4>'' @ line @ ''</h4>''
      else content @ ''<p>'' @ line @ ''</p>'')\<close>

definition formatPromoContent :: "jsval \<Rightarrow> js_error + string" where
  \<open>formatPromoContent promoText =
     (if \<not> truthy promoText then Inr []
      else and_then (formatText2 promoText) (\<lambda>formatted.
             Inr (foldl promo_line [] (content_lines formatted))))\<close>

text \<open>
  The body of \<^verbatim>\<open>lines.forEach\<close> in \<^verbatim>\<open>formatNotesContent\<close>, on a line and its index.
\<close>

definition notes_line :: "string \<Rightarrow> nat \<times> string \<Rightarrow> string" where
  \<open>notes_line content indexed =
     (case indexed of (index, line) \<Rightarrow>
        if index = 0 \<and> str_includes line ''Important numbers'' then content
        else if trim line \<noteq> [] then content @ ''<p>'' @ line @ ''</p>''
        else content)\<close>

definition formatNotesContent :: "jsval \<Rightarrow> js_error + string" where
  \<open>formatNotesContent notesText =
     (if \<not> truthy notesText then Inr []
      else and_then (formatText2 notesText) (\<lambda>formatted.
             Inr (foldl notes_line ''<h4>Important numbers for new cards:</h4>''
                    (enumerate 0 (content_lines formatted)))))\<close>

text \<open>
  One optional block of the template:
  \<^verbatim>\<open>${text ? `<div class="...">${format(text)}</div>` : ''}\<close>.
\<close>

definition text_block2 ::
  "string \<Rightarrow> (jsval \<Rightarrow> js_error + string) \<Rightarrow> jsval \<Rightarrow> js_error + string" where
  \<open>text_block2 cls format text =
     (if truthy text then
        and_then (format text) (\<lambda>formatted.
          Inr (''<div class="'' @ cls @ ''">'' @ formatted @ ''</div>''))
      else Inr [])\<close>

definition cardContent2 :: "string \<Rightarrow> string \<Rightarrow> string \<Rightarrow> string \<Rightarrow> string \<Rightarrow> string" where
  \<open>cardContent2 imageHtml title description promo notes =
     ''\<newline>    '' @ imageHtml
     @ ''\<newline>    <div class="product-card-body">\<newline>      <h3 class="product-title">''
     @ title
     @ ''</h3>\<newline>      '' @ description
     @ ''\<newline>      '' @ promo
     @ ''\<newline>      '' @ notes
     @ ''\<newline>      <div class="product-cta">\<newline>        <a href="#" class="product-cta-button">Find out more</a>\<newline>      </div>\<newline>    </div>\<newline>  ''\<close>

definition createProductCard2 :: "string \<Rightarrow> jsval \<Rightarrow> js_error + element" where
  \<open>createProductCard2 name fragmentData =
     (if \<not> truthy fragmentData then
        Inr \<lparr>className = ''product-card product-error'', innerHTML = fallback_html2 name\<rparr>
      else
        and_then (imageHtml2 fragmentData) (\<lambda>imageHtml.
        let description =
              js_or (opt_get (opt_get fragmentData ''creditCardDescription'') ''plaintext'')
                    (JStr '''');
            promo = js_or (opt_get (opt_get fragmentData ''promo'') ''plaintext'') (JStr '''');
            notes = js_or (opt_get (opt_get fragmentData ''notes'') ''plaintext'') (JStr '''')
        in
        and_then (ToString (js_or (js_or (opt_get fragmentData ''creditCardName'')
                                         (JStr name))
                                  (JStr ''Product''))) (\<lambda>title.
        and_then (text_block2 ''product-description'' formatText2 description) (\<lambda>descriptionHtml.
        and_then (text_block2 ''product-promo'' formatPromoContent promo) (\<lambda>promoHtml.
        and_then (text_block2 ''product-notes'' formatNotesContent notes) (\<lambda>notesHtml.
        Inr \<lparr>className = ''product-card'',
             innerHTML = cardContent2 imageHtml title descriptionHtml promoHtml notesHtml\<rparr>))))))\<close>

subsection \<open>Orchestrator\<close>

text \<open>
  What the orchestrator does to the world outside, in the order it happens: the requests
  it issues, and its calls \<^verbatim>\<open>moveInstrumentation(block, card)\<close>, \<open>MoveInstrumentation i\<close>
  being the call for the card made for the item at index \<open>i\<close>. The collaborator is not
  part of these sources; it is taken to return normally.
\<close>

datatype event = Fetch request | MoveInstrumentation nat

text \<open>
  The callback of \<^verbatim>\<open>productItems.map(async (item) => ...)\<close>. Up to its first
  \<^verbatim>\<open>await\<close> it runs at once and issues the request; the rest runs when the fetch has
  settled. The result is the requests issued, the events of the second part, and how the
  promise of the callback settles. \<open>fetch\<close> is the network as this call finds it.
\<close>

type_synonym 'a task = "event list \<times> (js_error + 'a)"

definition process_item1 :: "network \<Rightarrow> nat \<Rightarrow> ProductItem \<Rightarrow> request list \<times> element task" where
  "process_item1 fetch index item =
     (case getProductDataByContentPath fetch (fragmentPath item) of
        (requests, fetched) \<Rightarrow>
          (requests,
           case and_then fetched (createProductCard1 (productName item)) of
             Inr cardEl \<Rightarrow> ([MoveInstrumentation index], Inr cardEl)
           | Inl error \<Rightarrow> ([], createProductCard1 (productName item) JNull)))"

definition process_item2 :: "network \<Rightarrow> nat \<Rightarrow> ProductItem \<Rightarrow> request list \<times> element task" where
  "process_item2 fetch index item =
     (case getProductDataByContentPath fetch (fragmentPath item) of
        (requests, fetched) \<Rightarrow>
          (requests,
           case and_then fetched (createProductCard2 (productName item)) of
             Inr cardEl \<Rightarrow> ([MoveInstrumentation index], Inr cardEl)
           | Inl error \<Rightarrow> ([], createProductCard2 (productName item) JNull)))"

text \<open>
  \<^verbatim>\<open>Promise.all\<close>. The schedule lists the indices of the tasks in the order in which
  they settle; an index out of range or met a second time settles nothing. Each value
  goes to the slot of its own index. The promise is fulfilled with the values in index
  order once every slot is filled, rejected with the first error a task rejects with,
  and pending as long as some task has not settled.
\<close>

datatype 'a promise = Pending | Fulfilled 'a | Rejected js_error

fun settle ::
  "'a task list \<Rightarrow> nat list \<Rightarrow> 'a option list \<Rightarrow> event list \<Rightarrow> event list \<times> 'a list promise" where
  "settle tasks [] slots events =
     (events, case those slots of Some values \<Rightarrow> Fulfilled values | None \<Rightarrow> Pending)"
| "settle tasks (i # schedule) slots events =
     (if i < length tasks \<and> i < length slots \<and> slots ! i = None then
        (case tasks ! i of
           (settled, Inl error) \<Rightarrow> (events @ settled, Rejected error)
         | (settled, Inr v) \<Rightarrow> settle tasks schedule (slots[i := Some v]) (events @ settled))
      else settle tasks schedule slots events)"

definition Promise_all :: "'a task list \<Rightarrow> nat list \<Rightarrow> event list \<times> 'a list promise" where
  "Promise_all tasks schedule = settle tasks schedule (replicate (length tasks) None) []"

text \<open>
  The block before and after. Its content after \<^verbatim>\<open>decorate\<close> is either markup assigned
  to \<^verbatim>\<open>innerHTML\<close> or the elements appended to it.
\<close>

record block =
  children :: "row list"
  style_display :: string

datatype node = Div element | Ul string "element list"

datatype block_content = InnerHTML string | ChildNodes "node list"

record decorated =
  display :: string
  content :: block_content
  events :: "event list"

text \<open>
  \<^verbatim>\<open>productCards.forEach(card => { if (card) { ul.appendChild(card); } })\<close>: a card is an
  element, and every object is truthy.
\<close>

definition appendChild :: "element list \<Rightarrow> element \<Rightarrow> element list" where
  "appendChild nodes cardEl = nodes @ [cardEl]"

text \<open>
  \<open>net i\<close> is the network as the request for the item at index \<open>i\<close> finds it, and
  \<open>schedule\<close> the order in which the fetches settle. While \<^verbatim>\<open>Promise.all\<close> is pending
  the block shows the loading state; the \<^verbatim>\<open>catch\<close> of \<^verbatim>\<open>decorate\<close> is entered when
  it rejects.
\<close>

definition decorate1 :: "(nat \<Rightarrow> network) \<Rightarrow> nat list \<Rightarrow> block \<Rightarrow> decorated" where
  \<open>decorate1 net schedule block =
     (let productItems = parseProductItems (children block) in
      if length productItems = 0 then
        \<lparr>display = style_display block,
         content = InnerHTML ''<p>No products to display</p>'',
         events = []\<rparr>
      else
        let started = map (\<lambda>(index, item). process_item1 (net index) index item)
                          (enumerate 0 productItems);
            issued = map Fetch (concat (map fst started))
        in case Promise_all (map snd started) schedule of
             (settled, Pending) \<Rightarrow>
               \<lparr>display = style_display block,
                content = InnerHTML ''<div class="products-loading">Loading products...</div>'',
                events = issued @ settled\<rparr>
           | (settled, Fulfilled productCards) \<Rightarrow>
               \<lparr>display = style_display block,
                content = ChildNodes [Ul ''products-list'' (foldl appendChild [] productCards)],
                events = issued @ settled\<rparr>
           | (settled, Rejected error) \<Rightarrow>
               \<lparr>display = style_display block,
                content = InnerHTML ''<p class="products-error">Failed to load products. Please try again later.</p>'',
                events = issued @ settled\<rparr>)\<close>

definition decorate2 :: "(nat \<Rightarrow> network) \<Rightarrow> nat list \<Rightarrow> block \<Rightarrow> decorated" where
  \<open>decorate2 net schedule block =
     (let productItems = parseProductItems (children block) in
      if length productItems = 0 then
        \<lparr>display = ''block'',
         content = InnerHTML ''<p>No products to display</p>'',
         events = []\<rparr>
      else
        let titleSection = \<lparr>className = ''products-title'', innerHTML = ''<h2>Your card options</h2>''\<rparr>;
            started = map (\<lambda>(index, item). process_item2 (net index) index item)
                          (enumerate 0 productItems);
            issued = map Fetch (concat (map fst started))
        in case Promise_all (map snd started) schedule of
             (settled, Pending) \<Rightarrow>
               \<lparr>display = ''block'',
                content = InnerHTML ''<div class="products-loading">Loading products...</div>'',
                events = issued @ settled\<rparr>
           | (settled, Fulfilled productCards) \<Rightarrow>
               \<lparr>display = [],
                content = ChildNodes [Div titleSection, Ul [] (foldl appendChild [] productCards)],
                events = issued @ settled\<rparr>
           | (settled, Rejected error) \<Rightarrow>
               \<lparr>display = ''block'',
                content = InnerHTML ''<p class="products-error">Failed to load products. Please try again later.</p>'',
                events = issued @ settled\<rparr>)\<close>

subsection \<open>The specification's words for the fetcher\<close>

text \<open>
  The request the HTTP contract names: the fixed base, the fixed query path and the
  URL-encoded fragment path. URL encoding of a URL component, as
  \<^verbatim>\<open>encodeURIComponent\<close> does it: letters, digits and the marks \<^verbatim>\<open>-_.!~*'()\<close> stay,
  every other code unit becomes the percent-escapes of its UTF-8 bytes.
\<close>

definition unreserved :: "char \<Rightarrow> bool" where
  "unreserved c =
     (c \<in> set ''ABCDEFGHIJKLMNOPQRSTUVWXYZabcdefghijklmnopqrstuvwxyz0123456789-_.!~*()''
      \<or> c = CHR 0x27)"

definition percent_escape :: "nat \<Rightarrow> string" where
  "percent_escape byte =
     [CHR ''%'', ''0123456789ABCDEF'' ! (byte div 16), ''0123456789ABCDEF'' ! (byte mod 16)]"

definition urlencoded :: "string \<Rightarrow> string" where
  "urlencoded s =
     concat (map (\<lambda>c. if unreserved c then [c]
                       else if of_char c < (128::nat) then percent_escape (of_char c)
                       else percent_escape (192 + of_char c div 64)
                            @ percent_escape (128 + of_char c mod 64)) s)"

definition contract_request :: "string \<Rightarrow> request" where
  "contract_request contentPath =
     \<lparr>url = AEM_AUTHOR_URL @ GRAPHQL_ENDPOINT @ urlencoded contentPath,
      options = \<lparr>credentials = ''include''\<rparr>\<rparr>"

subsection \<open>The specification's words for the card renderer\<close>

text \<open>
  The record shape the renderer consumes: \<^verbatim>\<open>creditCardName\<close>, the \<^verbatim>\<open>plaintext\<close> of
  \<^verbatim>\<open>creditCardDescription\<close>, \<^verbatim>\<open>promo\<close> and \<^verbatim>\<open>notes\<close>, and \<^verbatim>\<open>creditCardImage._authorUrl\<close>,
  each optional and a string when it is there. A field is a text field when its value is a
  string or is falsy (absent, \<^verbatim>\<open>null\<close>); its text is the string, empty when there is
  none. A record is well formed when its five fields are text fields.
\<close>

definition text_field :: "jsval \<Rightarrow> bool" where
  "text_field v = (case v of JStr s \<Rightarrow> True | _ \<Rightarrow> \<not> truthy v)"

definition text_of :: "jsval \<Rightarrow> string" where
  "text_of v = (case v of JStr s \<Rightarrow> s | _ \<Rightarrow> [])"

definition plaintext :: "jsval \<Rightarrow> string \<Rightarrow> jsval" where
  "plaintext fragmentData field = opt_get (opt_get fragmentData field) ''plaintext''"

definition well_formed :: "jsval \<Rightarrow> bool" where
  "well_formed fragmentData =
     (text_field (opt_get fragmentData ''creditCardName'')
      \<and> text_field (plaintext fragmentData ''creditCardDescription'')
      \<and> text_field (plaintext fragmentData ''promo'')
      \<and> text_field (plaintext fragmentData ''notes'')
      \<and> text_field (opt_get (opt_get fragmentData ''creditCardImage'') ''_authorUrl''))"

text \<open>
  The title: the record's name if present, else the given product name, else the literal
  \<^verbatim>\<open>Product\<close>.
\<close>

definition card_title :: "string \<Rightarrow> jsval \<Rightarrow> string" where
  "card_title name fragmentData =
     (if text_of (opt_get fragmentData ''creditCardName'') \<noteq> []
      then text_of (opt_get fragmentData ''creditCardName'')
      else if name \<noteq> [] then name
      else ''Product'')"

text \<open>
  The formatting the specification names for a text block: line-break conversion, then one
  HTML-entity unescape, the encoded \<^verbatim>\<open>>\<close> decoded.
\<close>

definition line_breaks_to_html :: "string \<Rightarrow> string" where
  \<open>line_breaks_to_html t =
     replaceAll ''\<newline>'' ''<br>'' (replaceAll ''\<newline>\<newline>'' ''</p><p>'' t)\<close>

definition specified_format :: "string \<Rightarrow> string" where
  \<open>specified_format t = replaceAll ''&gt;'' ''>'' (line_breaks_to_html t)\<close>

text \<open>
  A text that holds no encoded \<^verbatim>\<open>>\<close>: neither the HTML entity nor the escape that the
  source's pattern is written with.
\<close>

definition no_encoded_gt :: "string \<Rightarrow> bool" where
  \<open>no_encoded_gt t =
     (\<not> str_includes t ''&gt;'' \<and> \<not> str_includes t (CHR 0x5C # ''u003E''))\<close>

text \<open>
  The text blocks of the two revisions, for a plain text \<open>t\<close>: empty when the text is
  empty. The first revision converts the line breaks and trims, inside one paragraph. The
  second trims the description and keeps its line breaks.
\<close>

definition paragraph_block :: "string \<Rightarrow> string \<Rightarrow> string" where
  \<open>paragraph_block cls t =
     (if t = [] then []
      else ''<div class="'' @ cls @ ''"><p>'' @ trim (line_breaks_to_html t) @ ''</p></div>'')\<close>

definition description_block2 :: "string \<Rightarrow> string" where
  \<open>description_block2 t =
     (if t = [] then [] else ''<div class="product-description">'' @ trim t @ ''</div>'')\<close>

text \<open>
  The lines of a text, read from the left: a line ends at each line feed. A line is blank
  when it holds nothing but white space.
\<close>

fun lines_from :: "string \<Rightarrow> string \<Rightarrow> string list" where
  "lines_from line [] = [line]"
| "lines_from line (c # cs) =
     (if c = CHR 0x0A then line # lines_from [] cs else lines_from (line @ [c]) cs)"

definition non_blank_lines :: "string \<Rightarrow> string list" where
  "non_blank_lines t = filter (\<lambda>line. \<not> list_all is_whitespace line) (lines_from [] t)"

text \<open>
  The promo of the second revision: one element per non-blank line of the trimmed text, a
  heading for a line that names a special offer and a paragraph for any other line.
\<close>

definition promo_element :: "string \<Rightarrow> string" where
  \<open>promo_element line =
     (if str_includes line ''special offer:'' then ''<h4>'' @ line @ ''</h4>''
      else ''<p>'' @ line @ ''</p>'')\<close>

definition promo_block2 :: "string \<Rightarrow> string" where
  \<open>promo_block2 t =
     (if t = [] then []
      else ''<div class="product-promo">''
           @ concat (map promo_element (non_blank_lines (trim t)))
           @ ''</div>'')\<close>

text \<open>
  The notes of the second revision: a fixed heading, then one paragraph per non-blank line
  of the trimmed text, the first of these lines being dropped when it names the
  important numbers itself.
\<close>

definition notes_paragraphs :: "string list \<Rightarrow> string list" where
  \<open>notes_paragraphs lines =
     (case lines of
        [] \<Rightarrow> []
      | first # others \<Rightarrow>
          if str_includes first ''Important numbers'' then others else first # others)\<close>

definition notes_block2 :: "string \<Rightarrow> string" where
  \<open>notes_block2 t =
     (if t = [] then []
      else ''<div class="product-notes"><h4>Important numbers for new cards:</h4>''
           @ concat (map (\<lambda>line. ''<p>'' @ line @ ''</p>'')
                       (notes_paragraphs (non_blank_lines (trim t))))
           @ ''</div>'')\<close>

text \<open>
  A slot of the card template holds a block for a text: the slot is empty exactly when the
  text is empty, and otherwise holds an element with the given opening and closing.
\<close>

definition holds_block :: "string \<Rightarrow> string \<Rightarrow> string \<Rightarrow> string \<Rightarrow> bool" where
  "holds_block opening closing t html =
     ((html = []) = (t = [])
      \<and> (t = [] \<or> (prefix opening html \<and> suffix closing html
                     \<and> length opening + length closing \<le> length html)))"

subsection \<open>Example inputs\<close>

text \<open>A record with every field the renderer reads, and the response that carries it.\<close>

definition example_record :: jsval where
  \<open>example_record =
     JObj [(''creditCardName'', JStr ''Gold Card''),
           (''creditCardDescription'', JObj [(''plaintext'', JStr ''Line one\<newline>\<newline>Line two'')]),
           (''promo'', JObj [(''plaintext'', JStr ''Rewards special offer: double points\<newline>Until June'')]),
           (''notes'', JObj [(''plaintext'', JStr ''Important numbers\<newline>APR 20 percent'')]),
           (''creditCardImage'', JObj [(''_authorUrl'', JStr ''/content/dam/gold.png'')])]\<close>

definition example_response :: response where
  \<open>example_response =
     \<lparr>status = 200, statusText = ''OK'',
      json = Inr (JObj [(''data'',
                JObj [(''productCreditCardModelByPath'', JObj [(''item'', example_record)])])])\<rparr>\<close>

text \<open>
  A block of two rows, and a network on which the first request is answered with the
  example record and the second request fails.
\<close>

definition example_block :: block where
  "example_block =
     \<lparr>children = [[''Card A'', ''/path/a''], [''Card B'', ''/path/b'']], style_display = []\<rparr>"

definition example_net :: "nat \<Rightarrow> network" where
  "example_net index request =
     (if index = 0 then Resolves example_response else Rejects (TypeError ''Failed to fetch''))"

subsection \<open>The specification's words for the orchestrator\<close>

text \<open>
  The fetch for a path fails: the request is rejected (a network error), or the response
  comes with a status outside 200 to 299.
\<close>

definition fetch_fails :: "network \<Rightarrow> string \<Rightarrow> bool" where
  "fetch_fails fetch contentPath =
     (case fetch \<lparr>url = AEM_AUTHOR_URL @ GRAPHQL_ENDPOINT @ contentPath,
                  options = \<lparr>credentials = ''include''\<rparr>\<rparr> of
        Rejects error \<Rightarrow> True
      | Resolves response \<Rightarrow> status response < 200 \<or> 299 < status response)"

text \<open>
  The card of an item: the card rendered from what the fetcher gives for its path, and the
  fallback card when fetching or rendering has failed.
\<close>

definition card_of_item1 :: "network \<Rightarrow> ProductItem \<Rightarrow> element" where
  "card_of_item1 fetch item =
     (case and_then (snd (getProductDataByContentPath fetch (fragmentPath item)))
             (createProductCard1 (productName item)) of
        Inr cardEl \<Rightarrow> cardEl
      | Inl error \<Rightarrow>
          \<lparr>className = ''products-card'', innerHTML = fallback_html1 (productName item)\<rparr>)"

definition card_of_item2 :: "network \<Rightarrow> ProductItem \<Rightarrow> element" where
  "card_of_item2 fetch item =
     (case and_then (snd (getProductDataByContentPath fetch (fragmentPath item)))
             (createProductCard2 (productName item)) of
        Inr cardEl \<Rightarrow> cardEl
      | Inl error \<Rightarrow>
          \<lparr>className = ''product-card product-error'',
           innerHTML = fallback_html2 (productName item)\<rparr>)"

definition cards_of_items1 :: "(nat \<Rightarrow> network) \<Rightarrow> ProductItem list \<Rightarrow> element list" where
  "cards_of_items1 net items =
     map (\<lambda>(index, item). card_of_item1 (net index) item) (enumerate 0 items)"

definition cards_of_items2 :: "(nat \<Rightarrow> network) \<Rightarrow> ProductItem list \<Rightarrow> element list" where
  "cards_of_items2 net items =
     map (\<lambda>(index, item). card_of_item2 (net index) item) (enumerate 0 items)"

text \<open>Every fetch settles: the schedule names the index of every item.\<close>

definition all_settle :: "nat list \<Rightarrow> nat \<Rightarrow> bool" where
  "all_settle schedule n = list_all (\<lambda>index. index \<in> set schedule) [0..<n]"

section \<open>Properties\<close>

subsection \<open>Item parser\<close>

lemma str_or_empty: "str_or s [] = s"
  by (simp add: str_or_def)

lemma parse_row_qualifying:
  "parse_row items cells =
     (if qualifying_row cells then items @ [item_of_row cells] else items)"
  by (simp add: parse_row_def qualifying_row_def item_of_row_def str_or_empty Let_def)

lemma foldl_parse_row:
  "foldl parse_row items rows = items @ map item_of_row (filter qualifying_row rows)"
  by (induction rows arbitrary: items) (simp_all add: parse_row_qualifying)

text \<open>
  C2. \<open>parseProductItems\<close> returns, in source order, one item per qualifying row (a row
  with at least two cells whose second cell has a non-empty trimmed text), the trimmed
  second cell being the fragment path; the other rows give no item, so there are as many
  items as qualifying rows.
\<close>

theorem parseProductItems_qualifying_rows:
  "parseProductItems rows = map item_of_row (filter qualifying_row rows)
   \<and> length (parseProductItems rows) = length (filter qualifying_row rows)
   \<and> map fragmentPath (parseProductItems rows)
       = map (\<lambda>cells. trim (cells ! 1)) (filter qualifying_row rows)"
  by (simp add: parseProductItems_def foldl_parse_row item_of_row_def comp_def)

subsection \<open>Record fetcher\<close>

lemma string_of_nat_404: "string_of_nat 404 = ''404''"
  by code_simp

lemma fetch_rejects:
  "fetch \<lparr>url = AEM_AUTHOR_URL @ GRAPHQL_ENDPOINT @ contentPath,
          options = \<lparr>credentials = ''include''\<rparr>\<rparr> = Rejects error
   \<Longrightarrow> snd (getProductDataByContentPath fetch contentPath)
       = Inl (Error (''Failed to fetch GraphQL Data: '' @ message error))"
  by (simp add: getProductDataByContentPath_def Let_def)

lemma fetch_not_ok:
  "fetch \<lparr>url = AEM_AUTHOR_URL @ GRAPHQL_ENDPOINT @ contentPath,
          options = \<lparr>credentials = ''include''\<rparr>\<rparr> = Resolves response
   \<Longrightarrow> status response < 200 \<or> 299 < status response
   \<Longrightarrow> snd (getProductDataByContentPath fetch contentPath)
       = Inl (Error (''Failed to fetch GraphQL Data: '' @ ''HTTP error! status: ''
                     @ string_of_nat (status response) @ '' - '' @ statusText response))"
  by (auto simp add: getProductDataByContentPath_def Let_def read_response_def ok_def)

text \<open>
  C3. Whenever the network request fails, or the response comes with a status outside
  200 to 299 (404 for one), \<open>getProductDataByContentPath\<close> rejects with an error whose
  message carries the underlying message (the message of the network error, or the text
  naming the status); it returns no record in those cases.
\<close>

theorem getProductDataByContentPath_fails:
  "(\<forall>error.
      fetch \<lparr>url = AEM_AUTHOR_URL @ GRAPHQL_ENDPOINT @ contentPath,
             options = \<lparr>credentials = ''include''\<rparr>\<rparr> = Rejects error \<longrightarrow>
      snd (getProductDataByContentPath fetch contentPath)
        = Inl (Error (''Failed to fetch GraphQL Data: '' @ message error)))
   \<and> (\<forall>response.
      fetch \<lparr>url = AEM_AUTHOR_URL @ GRAPHQL_ENDPOINT @ contentPath,
             options = \<lparr>credentials = ''include''\<rparr>\<rparr> = Resolves response
      \<and> (status response < 200 \<or> 299 < status response) \<longrightarrow>
      snd (getProductDataByContentPath fetch contentPath)
        = Inl (Error (''Failed to fetch GraphQL Data: '' @ ''HTTP error! status: ''
                      @ string_of_nat (status response) @ '' - '' @ statusText response)))"
  using fetch_rejects fetch_not_ok by blast

theorem getProductDataByContentPath_fails_witness:
  "snd (getProductDataByContentPath
          (\<lambda>r. Resolves \<lparr>status = 404, statusText = ''Not Found'', json = Inr JNull\<rparr>)
          ''/path/a'')
     = Inl (Error ''Failed to fetch GraphQL Data: HTTP error! status: 404 - Not Found'')
   \<and> snd (getProductDataByContentPath (\<lambda>r. Rejects (TypeError ''Failed to fetch''))
            ''/path/a'')
     = Inl (Error ''Failed to fetch GraphQL Data: Failed to fetch'')"
  using getProductDataByContentPath_fails
          [of "\<lambda>r. Resolves \<lparr>status = 404, statusText = ''Not Found'', json = Inr JNull\<rparr>"
              "''/path/a''"]
        getProductDataByContentPath_fails
          [of "\<lambda>r. Rejects (TypeError ''Failed to fetch'')" "''/path/a''"]
  by (simp add: string_of_nat_404)

text \<open>
  C4. When the response has a status from 200 to 299 and its parsed body lacks the nested
  item \<^verbatim>\<open>data.productCreditCardModelByPath.item\<close>, as the body \<^verbatim>\<open>{"data":{}}\<close> does,
  \<open>getProductDataByContentPath\<close> resolves with \<^verbatim>\<open>null\<close>: it does not reject.
\<close>

theorem getProductDataByContentPath_no_record:
  "fetch \<lparr>url = AEM_AUTHOR_URL @ GRAPHQL_ENDPOINT @ contentPath,
          options = \<lparr>credentials = ''include''\<rparr>\<rparr> = Resolves response
   \<Longrightarrow> 200 \<le> status response \<and> status response \<le> 299
   \<Longrightarrow> json response = Inr cf
   \<Longrightarrow> opt_get (opt_get (opt_get cf ''data'') ''productCreditCardModelByPath'') ''item''
       = JUndefined
   \<Longrightarrow> snd (getProductDataByContentPath fetch contentPath) = Inr JNull"
  by (simp add: getProductDataByContentPath_def Let_def read_response_def ok_def
        and_then_def js_or_def)

theorem getProductDataByContentPath_no_record_witness:
  "snd (getProductDataByContentPath
          (\<lambda>r. Resolves \<lparr>status = 200, statusText = ''OK'',
                          json = Inr (JObj [(''data'', JObj [])])\<rparr>)
          ''/path/a'')
     = Inr JNull"
  using getProductDataByContentPath_no_record
          [of "\<lambda>r. Resolves \<lparr>status = 200, statusText = ''OK'',
                                json = Inr (JObj [(''data'', JObj [])])\<rparr>"
              "''/path/a''"
              "\<lparr>status = 200, statusText = ''OK'', json = Inr (JObj [(''data'', JObj [])])\<rparr>"
              "JObj [(''data'', JObj [])]"]
  by simp

text \<open>
  C8, as amended. For every fragment path the fetcher issues one request: its URL is the
  fixed base URL, the fixed query path and the fragment path as it was given (the path is
  not URL-encoded), and the credentials are included. The network's answer to this
  request decides how the fetcher settles.
\<close>

theorem getProductDataByContentPath_request:
  "fst (getProductDataByContentPath fetch contentPath)
     = [\<lparr>url = AEM_AUTHOR_URL @ GRAPHQL_ENDPOINT @ contentPath,
         options = \<lparr>credentials = ''include''\<rparr>\<rparr>]
   \<and> snd (getProductDataByContentPath fetch contentPath)
     = snd (getProductDataByContentPath
              (\<lambda>r. fetch \<lparr>url = AEM_AUTHOR_URL @ GRAPHQL_ENDPOINT @ contentPath,
                           options = \<lparr>credentials = ''include''\<rparr>\<rparr>)
              contentPath)"
  by (simp add: getProductDataByContentPath_def Let_def)

text \<open>
  The claim as first stated fails: for a path with the character \<^verbatim>\<open>#\<close> in it the URL
  handed to \<^verbatim>\<open>fetch\<close> holds that character as it is, where the URL-encoded path
  holds its percent-escape.
\<close>

theorem getProductDataByContentPath_request_not_urlencoded:
  "fst (getProductDataByContentPath (\<lambda>r. Rejects (TypeError ''Failed to fetch''))
          ''/content/dam/card#1'')
     = [\<lparr>url = AEM_AUTHOR_URL @ GRAPHQL_ENDPOINT @ ''/content/dam/card#1'',
         options = \<lparr>credentials = ''include''\<rparr>\<rparr>]
   \<and> urlencoded ''/content/dam/card#1'' = ''%2Fcontent%2Fdam%2Fcard%231''
   \<and> fst (getProductDataByContentPath (\<lambda>r. Rejects (TypeError ''Failed to fetch''))
          ''/content/dam/card#1'')
     \<noteq> [contract_request ''/content/dam/card#1'']"
  by (simp add: getProductDataByContentPath_def Let_def contract_request_def urlencoded_def
        unreserved_def percent_escape_def)

subsection \<open>Card renderer\<close>

lemma replaceAll_same: "replaceAll [c] [c] s = s"
  by (induction s) auto

lemma and_then_Inr: "and_then (Inr x) f = f x"
  by (simp add: and_then_def)

lemma truthy_text_of: "text_field v \<Longrightarrow> truthy v = (text_of v \<noteq> [])"
  by (cases v) (simp_all add: text_field_def text_of_def)

lemma or_text:
  "text_field v \<Longrightarrow> js_or v (JStr d) = JStr (if text_of v \<noteq> [] then text_of v else d)"
  by (cases v) (simp_all add: text_field_def text_of_def js_or_def)

lemma or_text_default: "js_or (JStr s) (JStr d) = JStr (if s \<noteq> [] then s else d)"
  by (simp add: js_or_def)

lemma text_field_ToString: "text_field v \<Longrightarrow> truthy v \<Longrightarrow> ToString v = Inr (text_of v)"
  by (cases v) (simp_all add: text_field_def text_of_def)

lemma title_text:
  "text_field (opt_get fd ''creditCardName'') \<Longrightarrow>
   ToString (js_or (js_or (opt_get fd ''creditCardName'') (JStr name)) (JStr ''Product''))
     = Inr (card_title name fd)"
  by (simp add: or_text or_text_default card_title_def)

lemma formatText1_text:
  "formatText1 (JStr s) = Inr (if s = [] then [] else trim (line_breaks_to_html s))"
  by (simp add: formatText1_def line_breaks_to_html_def replaceAll_same)

lemma formatText2_text: "formatText2 (JStr s) = Inr (trim s)"
  by (simp add: formatText2_def replaceAll_same trim_def)

lemma text_block1_text:
  "text_field v \<Longrightarrow>
   text_block1 cls (js_or v (JStr [])) = Inr (paragraph_block cls (text_of v))"
  by (simp add: or_text text_block1_def formatText1_text paragraph_block_def and_then_Inr)

lemma description_block2_text:
  "text_field v \<Longrightarrow>
   text_block2 ''product-description'' formatText2 (js_or v (JStr []))
     = Inr (description_block2 (text_of v))"
  by (simp add: or_text text_block2_def formatText2_text description_block2_def and_then_Inr)

lemma split_on_not_Nil: "split_on sep s \<noteq> []"
  by (induction s) (auto split: list.splits)

lemma lines_from_split_on:
  "lines_from line s = (line @ hd (split_on CHR 0x0A s)) # tl (split_on CHR 0x0A s)"
proof (induction s arbitrary: line)
  case Nil
  show ?case by simp
next
  case (Cons c cs)
  show ?case
  proof (cases "c = CHR 0x0A")
    case True
    then show ?thesis using Cons.IH [of "[]"] split_on_not_Nil [of "CHR 0x0A" cs] by simp
  next
    case False
    obtain l ls where l: "split_on CHR 0x0A cs = l # ls"
      using split_on_not_Nil [of "CHR 0x0A" cs] by (cases "split_on CHR 0x0A cs") auto
    from False l show ?thesis using Cons.IH [of "line @ [c]"] by simp
  qed
qed

lemma lines_from_Nil: "lines_from [] s = split_on CHR 0x0A s"
  using split_on_not_Nil [of "CHR 0x0A" s] by (simp add: lines_from_split_on)

lemma trim_empty: "(trim line = []) = list_all is_whitespace line"
proof
  assume "trim line = []"
  then have "\<forall>c \<in> set (dropWhile is_whitespace line). is_whitespace c"
    by (simp add: trim_def dropWhile_eq_Nil_conv)
  then have "dropWhile is_whitespace line = []"
    by (metis hd_dropWhile list.set_sel(1))
  then show "list_all is_whitespace line"
    by (simp add: dropWhile_eq_Nil_conv list_all_iff)
next
  assume "list_all is_whitespace line"
  then show "trim line = []"
    by (auto simp add: trim_def list_all_iff dest: set_dropWhileD)
qed

lemma content_lines_non_blank: "content_lines formatted = non_blank_lines formatted"
  by (simp add: content_lines_def non_blank_lines_def lines_from_Nil trim_empty)

lemma special_offer_includes:
  "str_includes line ''Rewards special offer:'' \<Longrightarrow> str_includes line ''special offer:''"
proof -
  have "sublist ''special offer:'' ''Rewards special offer:''"
    by (simp add: sublist_Cons_right)
  then show "str_includes line ''Rewards special offer:'' \<Longrightarrow> str_includes line ''special offer:''"
    unfolding str_includes_def by (rule sublist_order.order.trans)
qed

lemma promo_line_element: "promo_line acc line = acc @ promo_element line"
  using special_offer_includes [of line] by (auto simp add: promo_line_def promo_element_def)

lemma foldl_promo_line:
  "foldl promo_line acc lines = acc @ concat (map promo_element lines)"
  by (induction lines arbitrary: acc) (simp_all add: promo_line_element)

lemma foldl_notes_line_later:
  "0 < n \<Longrightarrow> \<forall>line \<in> set lines. trim line \<noteq> [] \<Longrightarrow>
   foldl notes_line acc (enumerate n lines)
     = acc @ concat (map (\<lambda>line. ''<p>'' @ line @ ''</p>'') lines)"
  by (induction lines arbitrary: acc n) (simp_all add: notes_line_def)

lemma foldl_notes_line:
  "\<forall>line \<in> set lines. trim line \<noteq> [] \<Longrightarrow>
   foldl notes_line acc (enumerate 0 lines)
     = acc @ concat (map (\<lambda>line. ''<p>'' @ line @ ''</p>'') (notes_paragraphs lines))"
  by (cases lines) (simp_all add: notes_paragraphs_def notes_line_def foldl_notes_line_later)

lemma non_blank_lines_trim: "\<forall>line \<in> set (non_blank_lines t). trim line \<noteq> []"
  by (simp add: non_blank_lines_def trim_empty)

lemma promo_block2_text:
  "text_field v \<Longrightarrow>
   text_block2 ''product-promo'' formatPromoContent (js_or v (JStr []))
     = Inr (promo_block2 (text_of v))"
  by (simp add: or_text text_block2_def formatPromoContent_def formatText2_text
        promo_block2_def and_then_Inr content_lines_non_blank foldl_promo_line)

lemma notes_block2_text:
  "text_field v \<Longrightarrow>
   text_block2 ''product-notes'' formatNotesContent (js_or v (JStr []))
     = Inr (notes_block2 (text_of v))"
  by (simp add: or_text text_block2_def formatNotesContent_def formatText2_text
        notes_block2_def and_then_Inr content_lines_non_blank foldl_notes_line
        non_blank_lines_trim)

lemma imageHtml1_ok:
  assumes "text_field (opt_get fd ''creditCardName'')"
    and "text_field (opt_get (opt_get fd ''creditCardImage'') ''_authorUrl'')"
  shows "\<exists>h. imageHtml1 fd = Inr h"
  using assms
  by (simp add: imageHtml1_def Let_def or_text and_then_Inr text_field_ToString)

lemma imageHtml2_ok:
  assumes "text_field (opt_get fd ''creditCardName'')"
    and "text_field (opt_get (opt_get fd ''creditCardImage'') ''_authorUrl'')"
  shows "\<exists>h. imageHtml2 fd = Inr h"
  using assms
  by (simp add: imageHtml2_def Let_def or_text and_then_Inr text_field_ToString)

lemma createProductCard1_well_formed:
  assumes "truthy fd" and "well_formed fd"
  shows "\<exists>imageHtml.
           createProductCard1 name fd =
             Inr \<lparr>className = ''products-card'',
                  innerHTML =
                    cardContent1 imageHtml (card_title name fd)
                      (paragraph_block ''products-card-description''
                         (text_of (plaintext fd ''creditCardDescription'')))
                      (paragraph_block ''products-card-promo'' (text_of (plaintext fd ''promo'')))
                      (paragraph_block ''products-card-notes'' (text_of (plaintext fd ''notes'')))\<rparr>"
proof -
  from assms(2) obtain h where h: "imageHtml1 fd = Inr h"
    using imageHtml1_ok by (auto simp: well_formed_def)
  from assms show ?thesis
    by (auto simp add: createProductCard1_def h and_then_Inr Let_def well_formed_def
          plaintext_def title_text text_block1_text)
qed

lemma createProductCard2_well_formed:
  assumes "truthy fd" and "well_formed fd"
  shows "\<exists>imageHtml.
           createProductCard2 name fd =
             Inr \<lparr>className = ''product-card'',
                  innerHTML =
                    cardContent2 imageHtml (card_title name fd)
                      (description_block2 (text_of (plaintext fd ''creditCardDescription'')))
                      (promo_block2 (text_of (plaintext fd ''promo'')))
                      (notes_block2 (text_of (plaintext fd ''notes'')))\<rparr>"
proof -
  from assms(2) obtain h where h: "imageHtml2 fd = Inr h"
    using imageHtml2_ok by (auto simp: well_formed_def)
  from assms show ?thesis
    by (auto simp add: createProductCard2_def h and_then_Inr Let_def well_formed_def
          plaintext_def title_text description_block2_text promo_block2_text
          notes_block2_text)
qed

lemma createProductCard1_falsy:
  "\<not> truthy fd \<Longrightarrow>
   createProductCard1 name fd
     = Inr \<lparr>className = ''products-card'', innerHTML = fallback_html1 name\<rparr>"
  by (simp add: createProductCard1_def)

lemma createProductCard2_falsy:
  "\<not> truthy fd \<Longrightarrow>
   createProductCard2 name fd
     = Inr \<lparr>className = ''product-card product-error'', innerHTML = fallback_html2 name\<rparr>"
  by (simp add: createProductCard2_def)


lemma fallback_html1_notice: "sublist ''Content fragment data not available'' (fallback_html1 name)"
  by (simp add: fallback_html1_def sublist_append sublist_Cons_right)

lemma fallback_html2_notice: "sublist ''Content fragment data not available'' (fallback_html2 name)"
  by (simp add: fallback_html2_def sublist_append sublist_Cons_right)

lemma fallback_html1_name_or: "sublist (str_or name ''Product'') (fallback_html1 name)"
  unfolding fallback_html1_def by (rule sublist_appendI)

lemma fallback_html1_name: "sublist (if name = [] then ''Product'' else name) (fallback_html1 name)"
  using fallback_html1_name_or [of name] by (cases "name = []") (simp_all add: str_or_def)

lemma fallback_html2_name_or: "sublist (str_or name ''Product'') (fallback_html2 name)"
  unfolding fallback_html2_def by (rule sublist_appendI)

lemma fallback_html2_name: "sublist (if name = [] then ''Product'' else name) (fallback_html2 name)"
  using fallback_html2_name_or [of name] by (cases "name = []") (simp_all add: str_or_def)

lemma example_record_well_formed: "truthy example_record \<and> well_formed example_record"
  by (simp add: example_record_def well_formed_def text_field_def plaintext_def)

text \<open>
  C5, as amended. For every product name, empty or not, and every record that is
  \<^verbatim>\<open>null\<close> or well formed (each text field absent, falsy or a string),
  \<open>createProductCard\<close> returns one card element and does not throw. For the record
  \<^verbatim>\<open>null\<close> the card holds the notice that the data is not available and the given
  name, or the literal \<^verbatim>\<open>Product\<close> when the name is empty.
\<close>

theorem createProductCard_total:
  assumes "well_formed fragmentData"
  shows "(\<exists>c. createProductCard1 name fragmentData = Inr c)
       \<and> (\<exists>c. createProductCard2 name fragmentData = Inr c)
       \<and> createProductCard1 name JNull
           = Inr \<lparr>className = ''products-card'', innerHTML = fallback_html1 name\<rparr>
       \<and> createProductCard2 name JNull
           = Inr \<lparr>className = ''product-card product-error'', innerHTML = fallback_html2 name\<rparr>
       \<and> sublist ''Content fragment data not available'' (fallback_html1 name)
       \<and> sublist (if name = [] then ''Product'' else name) (fallback_html1 name)
       \<and> sublist ''Content fragment data not available'' (fallback_html2 name)
       \<and> sublist (if name = [] then ''Product'' else name) (fallback_html2 name)"
proof -
  have "\<exists>c. createProductCard1 name fragmentData = Inr c"
  proof (cases "truthy fragmentData")
    case True
    with assms createProductCard1_well_formed [of fragmentData name] show ?thesis by blast
  next
    case False
    then show ?thesis by (simp add: createProductCard1_falsy)
  qed
  moreover have "\<exists>c. createProductCard2 name fragmentData = Inr c"
  proof (cases "truthy fragmentData")
    case True
    with assms createProductCard2_well_formed [of fragmentData name] show ?thesis by blast
  next
    case False
    then show ?thesis by (simp add: createProductCard2_falsy)
  qed
  ultimately show ?thesis
    using fallback_html1_notice [of name] fallback_html2_notice [of name] fallback_html1_name [of name] fallback_html2_name [of name]
    by (simp add: createProductCard1_falsy createProductCard2_falsy)
qed

theorem createProductCard_total_witness:
  "well_formed JNull \<and> well_formed example_record
   \<and> (\<exists>c. createProductCard1 ''Card A'' example_record = Inr c)
   \<and> (\<exists>c. createProductCard2 ''Card A'' example_record = Inr c)
   \<and> createProductCard1 [] JNull
       = Inr \<lparr>className = ''products-card'', innerHTML = fallback_html1 []\<rparr>
   \<and> sublist ''Content fragment data not available'' (fallback_html1 [])
   \<and> sublist ''Product'' (fallback_html1 [])
   \<and> sublist ''Card A'' (fallback_html2 ''Card A'')"
proof -
  have w1: "well_formed JNull"
    by (simp add: well_formed_def text_field_def plaintext_def)
  have w2: "well_formed example_record"
    by (simp add: example_record_well_formed)
  show ?thesis
    using w1 w2 createProductCard_total [OF w2, of "''Card A''"]
      createProductCard_total [OF w1, of "[]"]
    by simp
qed

text \<open>
  The claim as first stated fails for a record with a text field that is not a string:
  \<^verbatim>\<open>formatText\<close> calls \<^verbatim>\<open>replace\<close> on the number and the renderer throws.
\<close>

theorem createProductCard_throws_on_untyped_text:
  "createProductCard1 ''Card A'' (JObj [(''promo'', JObj [(''plaintext'', JNum ''5'')])])
     = Inl (TypeError ''text.replace is not a function'')
   \<and> createProductCard2 ''Card A'' (JObj [(''promo'', JObj [(''plaintext'', JNum ''5'')])])
     = Inl (TypeError ''text.replace is not a function'')"
  by (simp add: createProductCard1_def createProductCard2_def imageHtml1_def imageHtml2_def
        and_then_def js_or_def text_block1_def text_block2_def formatText1_def formatText2_def
        formatPromoContent_def Let_def)


lemma cardContent1_title:
  \<open>sublist (''<h3 class="products-card-title">'' @ title @ ''</h3>'')
     (cardContent1 imageHtml title description promo notes)\<close>
proof -
  have \<open>cardContent1 imageHtml title description promo notes =
          (''\<newline>    '' @ imageHtml @ ''\<newline>    <div class="products-card-body">\<newline>      '')
          @ (''<h3 class="products-card-title">'' @ title @ ''</h3>'')
          @ (''\<newline>      '' @ description @ ''\<newline>      '' @ promo @ ''\<newline>      '' @ notes
             @ ''\<newline>    </div>\<newline>  '')\<close>
    by (simp add: cardContent1_def)
  then show ?thesis by (simp only: sublist_appendI)
qed

lemma cardContent2_title:
  \<open>sublist (''<h3 class="product-title">'' @ title @ ''</h3>'')
     (cardContent2 imageHtml title description promo notes)\<close>
proof -
  have \<open>cardContent2 imageHtml title description promo notes =
          (''\<newline>    '' @ imageHtml @ ''\<newline>    <div class="product-card-body">\<newline>      '')
          @ (''<h3 class="product-title">'' @ title @ ''</h3>'')
          @ (''\<newline>      '' @ description @ ''\<newline>      '' @ promo @ ''\<newline>      '' @ notes
             @ ''\<newline>      <div class="product-cta">\<newline>        <a href="#" class="product-cta-button">Find out more</a>\<newline>      </div>\<newline>    </div>\<newline>  '')\<close>
    by (simp add: cardContent2_def)
  then show ?thesis by (simp only: sublist_appendI)
qed

text \<open>
  C6. For every well-formed record that is not \<^verbatim>\<open>null\<close>, the title of the rendered
  card is the record's name if present, else the given product name, else the literal
  \<^verbatim>\<open>Product\<close>: the markup of the card is the template of its revision with that title
  in the heading element, so the heading with that title is part of the markup.
\<close>

theorem createProductCard_title:
  assumes "truthy fragmentData" and "well_formed fragmentData"
  shows
    \<open>(\<exists>cardEl imageHtml description promo notes.
        createProductCard1 name fragmentData = Inr cardEl
        \<and> className cardEl = ''products-card''
        \<and> innerHTML cardEl =
            ''\<newline>    '' @ imageHtml
            @ ''\<newline>    <div class="products-card-body">\<newline>      <h3 class="products-card-title">''
            @ card_title name fragmentData
            @ ''</h3>\<newline>      '' @ description
            @ ''\<newline>      '' @ promo
            @ ''\<newline>      '' @ notes
            @ ''\<newline>    </div>\<newline>  ''
        \<and> sublist (''<h3 class="products-card-title">'' @ card_title name fragmentData @ ''</h3>'')
            (innerHTML cardEl))
     \<and> (\<exists>cardEl imageHtml description promo notes.
        createProductCard2 name fragmentData = Inr cardEl
        \<and> className cardEl = ''product-card''
        \<and> innerHTML cardEl =
            ''\<newline>    '' @ imageHtml
            @ ''\<newline>    <div class="product-card-body">\<newline>      <h3 class="product-title">''
            @ card_title name fragmentData
            @ ''</h3>\<newline>      '' @ description
            @ ''\<newline>      '' @ promo
            @ ''\<newline>      '' @ notes
            @ ''\<newline>      <div class="product-cta">\<newline>        <a href="#" class="product-cta-button">Find out more</a>\<newline>      </div>\<newline>    </div>\<newline>  ''
        \<and> sublist (''<h3 class="product-title">'' @ card_title name fragmentData @ ''</h3>'')
            (innerHTML cardEl))\<close>
proof -
  from createProductCard1_well_formed [OF assms, of name]
  obtain i1 where c1:
    "createProductCard1 name fragmentData =
       Inr \<lparr>className = ''products-card'',
            innerHTML =
              cardContent1 i1 (card_title name fragmentData)
                (paragraph_block ''products-card-description''
                   (text_of (plaintext fragmentData ''creditCardDescription'')))
                (paragraph_block ''products-card-promo'' (text_of (plaintext fragmentData ''promo'')))
                (paragraph_block ''products-card-notes'' (text_of (plaintext fragmentData ''notes'')))\<rparr>"
    by blast
  from createProductCard2_well_formed [OF assms, of name]
  obtain i2 where c2:
    "createProductCard2 name fragmentData =
       Inr \<lparr>className = ''product-card'',
            innerHTML =
              cardContent2 i2 (card_title name fragmentData)
                (description_block2 (text_of (plaintext fragmentData ''creditCardDescription'')))
                (promo_block2 (text_of (plaintext fragmentData ''promo'')))
                (notes_block2 (text_of (plaintext fragmentData ''notes'')))\<rparr>"
    by blast
  let ?d1 = "paragraph_block ''products-card-description''
               (text_of (plaintext fragmentData ''creditCardDescription''))"
  let ?p1 = "paragraph_block ''products-card-promo'' (text_of (plaintext fragmentData ''promo''))"
  let ?n1 = "paragraph_block ''products-card-notes'' (text_of (plaintext fragmentData ''notes''))"
  let ?c1 = "\<lparr>className = ''products-card'',
              innerHTML = cardContent1 i1 (card_title name fragmentData) ?d1 ?p1 ?n1\<rparr>"
  let ?d2 = "description_block2 (text_of (plaintext fragmentData ''creditCardDescription''))"
  let ?p2 = "promo_block2 (text_of (plaintext fragmentData ''promo''))"
  let ?n2 = "notes_block2 (text_of (plaintext fragmentData ''notes''))"
  let ?c2 = "\<lparr>className = ''product-card'',
              innerHTML = cardContent2 i2 (card_title name fragmentData) ?d2 ?p2 ?n2\<rparr>"
  have s1: \<open>sublist (''<h3 class="products-card-title">'' @ card_title name fragmentData @ ''</h3>'')
              (innerHTML ?c1)\<close>
    using cardContent1_title [of "card_title name fragmentData" i1 ?d1 ?p1 ?n1] by simp
  have s2: \<open>sublist (''<h3 class="product-title">'' @ card_title name fragmentData @ ''</h3>'')
              (innerHTML ?c2)\<close>
    using cardContent2_title [of "card_title name fragmentData" i2 ?d2 ?p2 ?n2] by simp
  have e1: \<open>innerHTML ?c1 =
            ''\<newline>    '' @ i1
            @ ''\<newline>    <div class="products-card-body">\<newline>      <h3 class="products-card-title">''
            @ card_title name fragmentData
            @ ''</h3>\<newline>      '' @ ?d1
            @ ''\<newline>      '' @ ?p1
            @ ''\<newline>      '' @ ?n1
            @ ''\<newline>    </div>\<newline>  ''\<close>
    by (simp add: cardContent1_def)
  have e2: \<open>innerHTML ?c2 =
            ''\<newline>    '' @ i2
            @ ''\<newline>    <div class="product-card-body">\<newline>      <h3 class="product-title">''
            @ card_title name fragmentData
            @ ''</h3>\<newline>      '' @ ?d2
            @ ''\<newline>      '' @ ?p2
            @ ''\<newline>      '' @ ?n2
            @ ''\<newline>      <div class="product-cta">\<newline>        <a href="#" class="product-cta-button">Find out more</a>\<newline>      </div>\<newline>    </div>\<newline>  ''\<close>
    by (simp add: cardContent2_def)
  have k1: "className ?c1 = ''products-card''" and k2: "className ?c2 = ''product-card''"
    by simp_all
  show ?thesis
  proof (rule conjI)
    show \<open>\<exists>cardEl imageHtml description promo notes.
        createProductCard1 name fragmentData = Inr cardEl
        \<and> className cardEl = ''products-card''
        \<and> innerHTML cardEl =
            ''\<newline>    '' @ imageHtml
            @ ''\<newline>    <div class="products-card-body">\<newline>      <h3 class="products-card-title">''
            @ card_title name fragmentData
            @ ''</h3>\<newline>      '' @ description
            @ ''\<newline>      '' @ promo
            @ ''\<newline>      '' @ notes
            @ ''\<newline>    </div>\<newline>  ''
        \<and> sublist (''<h3 class="products-card-title">'' @ card_title name fragmentData @ ''</h3>'')
            (innerHTML cardEl)\<close>
      apply (rule exI [of _ ?c1], rule exI [of _ i1], rule exI [of _ ?d1])
      apply (rule exI [of _ ?p1], rule exI [of _ ?n1])
      apply (intro conjI)
         apply (rule c1)
        apply (rule k1)
       apply (rule e1)
      apply (rule s1)
      done
    show \<open>\<exists>cardEl imageHtml description promo notes.
        createProductCard2 name fragmentData = Inr cardEl
        \<and> className cardEl = ''product-card''
        \<and> innerHTML cardEl =
            ''\<newline>    '' @ imageHtml
            @ ''\<newline>    <div class="product-card-body">\<newline>      <h3 class="product-title">''
            @ card_title name fragmentData
            @ ''</h3>\<newline>      '' @ description
            @ ''\<newline>      '' @ promo
            @ ''\<newline>      '' @ notes
            @ ''\<newline>      <div class="product-cta">\<newline>        <a href="#" class="product-cta-button">Find out more</a>\<newline>      </div>\<newline>    </div>\<newline>  ''
        \<and> sublist (''<h3 class="product-title">'' @ card_title name fragmentData @ ''</h3>'')
            (innerHTML cardEl)\<close>
      apply (rule exI [of _ ?c2], rule exI [of _ i2], rule exI [of _ ?d2])
      apply (rule exI [of _ ?p2], rule exI [of _ ?n2])
      apply (intro conjI)
         apply (rule c2)
        apply (rule k2)
       apply (rule e2)
      apply (rule s2)
      done
  qed
qed

lemma example_title:
  "card_title ''Card A'' example_record = ''Gold Card''"
  "card_title ''Card A'' (JObj []) = ''Card A''"
  "card_title [] (JObj []) = ''Product''"
  by (simp_all add: card_title_def example_record_def text_of_def)

theorem createProductCard_title_witness:
  \<open>truthy example_record \<and> well_formed example_record
   \<and> truthy (JObj []) \<and> well_formed (JObj [])
   \<and> (\<exists>cardEl. createProductCard1 ''Card A'' example_record = Inr cardEl
         \<and> sublist ''<h3 class="products-card-title">Gold Card</h3>'' (innerHTML cardEl))
   \<and> (\<exists>cardEl. createProductCard2 ''Card A'' example_record = Inr cardEl
         \<and> sublist ''<h3 class="product-title">Gold Card</h3>'' (innerHTML cardEl))
   \<and> (\<exists>cardEl. createProductCard1 ''Card A'' (JObj []) = Inr cardEl
         \<and> sublist ''<h3 class="products-card-title">Card A</h3>'' (innerHTML cardEl))
   \<and> (\<exists>cardEl. createProductCard2 [] (JObj []) = Inr cardEl
         \<and> sublist ''<h3 class="product-title">Product</h3>'' (innerHTML cardEl))\<close>
proof -
  have e: "truthy example_record" "well_formed example_record"
    by (simp_all add: example_record_well_formed)
  have o: "truthy (JObj [])" "well_formed (JObj [])"
    by (simp_all add: well_formed_def text_field_def plaintext_def)
  from createProductCard_title [OF e, of "''Card A''"]
  obtain a1 a2 where a:
    "createProductCard1 ''Card A'' example_record = Inr a1"
    \<open>sublist (''<h3 class="products-card-title">'' @ card_title ''Card A'' example_record @ ''</h3>'')
       (innerHTML a1)\<close>
    "createProductCard2 ''Card A'' example_record = Inr a2"
    \<open>sublist (''<h3 class="product-title">'' @ card_title ''Card A'' example_record @ ''</h3>'')
       (innerHTML a2)\<close>
    by blast
  from createProductCard_title [OF o, of "''Card A''"]
  obtain b1 where b:
    "createProductCard1 ''Card A'' (JObj []) = Inr b1"
    \<open>sublist (''<h3 class="products-card-title">'' @ card_title ''Card A'' (JObj []) @ ''</h3>'')
       (innerHTML b1)\<close>
    by blast
  from createProductCard_title [OF o, of "[]"]
  obtain c2 where c:
    "createProductCard2 [] (JObj []) = Inr c2"
    \<open>sublist (''<h3 class="product-title">'' @ card_title [] (JObj []) @ ''</h3>'')
       (innerHTML c2)\<close>
    by blast
  show ?thesis
    using e o a b c by (simp add: example_title)
qed

lemma holds_paragraph_block:
  \<open>holds_block (''<div class="'' @ cls @ ''"><p>'') ''</p></div>'' t (paragraph_block cls t)\<close>
  by (simp add: holds_block_def paragraph_block_def suffix_def)

lemma holds_description_block2:
  \<open>holds_block ''<div class="product-description">'' ''</div>'' t (description_block2 t)\<close>
  by (simp add: holds_block_def description_block2_def suffix_def)

lemma holds_promo_block2:
  \<open>holds_block ''<div class="product-promo">'' ''</div>'' t (promo_block2 t)\<close>
  by (simp add: holds_block_def promo_block2_def suffix_def)

lemma holds_notes_block2:
  \<open>holds_block ''<div class="product-notes"><h4>Important numbers for new cards:</h4>''
     ''</div>'' t (notes_block2 t)\<close>
  by (simp add: holds_block_def notes_block2_def suffix_def)

text \<open>
  C7, as amended. For every well-formed record that is not \<^verbatim>\<open>null\<close>, the markup of the
  rendered card is the template of its revision, and each of the description, promo and
  notes slots of the template holds its block exactly when the plain text of the field is
  non-empty. For a plain text that holds no encoded \<^verbatim>\<open>>\<close> the text of the block is, in
  the first revision, the plain text with its line breaks converted (a blank line to a
  paragraph break, a line break to \<^verbatim>\<open><br>\<close>) and then trimmed; in the second revision
  the description is the trimmed plain text with its line breaks kept, the promo is one
  element per non-blank line (a heading for a special-offer line, a paragraph otherwise),
  and the notes are a fixed heading and one paragraph per non-blank line, a first line
  that names the important numbers being dropped. (What becomes of an encoded \<^verbatim>\<open>>\<close> is
  left open: the source's comment announces that it is decoded, and the pattern the
  source writes matches the decoded character.)
\<close>

theorem createProductCard_text_blocks:
  assumes "truthy fragmentData" and "well_formed fragmentData"
  shows
    \<open>(\<exists>cardEl imageHtml title description promo notes.
        createProductCard1 name fragmentData = Inr cardEl
        \<and> className cardEl = ''products-card''
        \<and> innerHTML cardEl =
            ''\<newline>    '' @ imageHtml
            @ ''\<newline>    <div class="products-card-body">\<newline>      <h3 class="products-card-title">''
            @ title
            @ ''</h3>\<newline>      '' @ description
            @ ''\<newline>      '' @ promo
            @ ''\<newline>      '' @ notes
            @ ''\<newline>    </div>\<newline>  ''
        \<and> holds_block ''<div class="products-card-description"><p>'' ''</p></div>''
            (text_of (plaintext fragmentData ''creditCardDescription'')) description
        \<and> holds_block ''<div class="products-card-promo"><p>'' ''</p></div>''
            (text_of (plaintext fragmentData ''promo'')) promo
        \<and> holds_block ''<div class="products-card-notes"><p>'' ''</p></div>''
            (text_of (plaintext fragmentData ''notes'')) notes
        \<and> (no_encoded_gt (text_of (plaintext fragmentData ''creditCardDescription'')) \<longrightarrow>
             description = paragraph_block ''products-card-description''
                             (text_of (plaintext fragmentData ''creditCardDescription'')))
        \<and> (no_encoded_gt (text_of (plaintext fragmentData ''promo'')) \<longrightarrow>
             promo = paragraph_block ''products-card-promo''
                       (text_of (plaintext fragmentData ''promo'')))
        \<and> (no_encoded_gt (text_of (plaintext fragmentData ''notes'')) \<longrightarrow>
             notes = paragraph_block ''products-card-notes''
                       (text_of (plaintext fragmentData ''notes''))))
     \<and> (\<exists>cardEl imageHtml title description promo notes.
        createProductCard2 name fragmentData = Inr cardEl
        \<and> className cardEl = ''product-card''
        \<and> innerHTML cardEl =
            ''\<newline>    '' @ imageHtml
            @ ''\<newline>    <div class="product-card-body">\<newline>      <h3 class="product-title">''
            @ title
            @ ''</h3>\<newline>      '' @ description
            @ ''\<newline>      '' @ promo
            @ ''\<newline>      '' @ notes
            @ ''\<newline>      <div class="product-cta">\<newline>        <a href="#" class="product-cta-button">Find out more</a>\<newline>      </div>\<newline>    </div>\<newline>  ''
        \<and> holds_block ''<div class="product-description">'' ''</div>''
            (text_of (plaintext fragmentData ''creditCardDescription'')) description
        \<and> holds_block ''<div class="product-promo">'' ''</div>''
            (text_of (plaintext fragmentData ''promo'')) promo
        \<and> holds_block ''<div class="product-notes"><h4>Important numbers for new cards:</h4>''
            ''</div>'' (text_of (plaintext fragmentData ''notes'')) notes
        \<and> (no_encoded_gt (text_of (plaintext fragmentData ''creditCardDescription'')) \<longrightarrow>
             description = description_block2
                             (text_of (plaintext fragmentData ''creditCardDescription'')))
        \<and> (no_encoded_gt (text_of (plaintext fragmentData ''promo'')) \<longrightarrow>
             promo = promo_block2 (text_of (plaintext fragmentData ''promo'')))
        \<and> (no_encoded_gt (text_of (plaintext fragmentData ''notes'')) \<longrightarrow>
             notes = notes_block2 (text_of (plaintext fragmentData ''notes''))))\<close>
proof -
  from createProductCard1_well_formed [OF assms, of name]
  obtain i1 where c1:
    "createProductCard1 name fragmentData =
       Inr \<lparr>className = ''products-card'',
            innerHTML =
              cardContent1 i1 (card_title name fragmentData)
                (paragraph_block ''products-card-description''
                   (text_of (plaintext fragmentData ''creditCardDescription'')))
                (paragraph_block ''products-card-promo'' (text_of (plaintext fragmentData ''promo'')))
                (paragraph_block ''products-card-notes'' (text_of (plaintext fragmentData ''notes'')))\<rparr>"
    by blast
  from createProductCard2_well_formed [OF assms, of name]
  obtain i2 where c2:
    "createProductCard2 name fragmentData =
       Inr \<lparr>className = ''product-card'',
            innerHTML =
              cardContent2 i2 (card_title name fragmentData)
                (description_block2 (text_of (plaintext fragmentData ''creditCardDescription'')))
                (promo_block2 (text_of (plaintext fragmentData ''promo'')))
                (notes_block2 (text_of (plaintext fragmentData ''notes'')))\<rparr>"
    by blast
  let ?d = "text_of (plaintext fragmentData ''creditCardDescription'')"
  let ?p = "text_of (plaintext fragmentData ''promo'')"
  let ?n = "text_of (plaintext fragmentData ''notes'')"
  let ?d1 = "paragraph_block ''products-card-description'' ?d"
  let ?p1 = "paragraph_block ''products-card-promo'' ?p"
  let ?n1 = "paragraph_block ''products-card-notes'' ?n"
  let ?c1 = "\<lparr>className = ''products-card'',
              innerHTML = cardContent1 i1 (card_title name fragmentData) ?d1 ?p1 ?n1\<rparr>"
  let ?d2 = "description_block2 ?d"
  let ?p2 = "promo_block2 ?p"
  let ?n2 = "notes_block2 ?n"
  let ?c2 = "\<lparr>className = ''product-card'',
              innerHTML = cardContent2 i2 (card_title name fragmentData) ?d2 ?p2 ?n2\<rparr>"
  have e1: \<open>innerHTML ?c1 =
            ''\<newline>    '' @ i1
            @ ''\<newline>    <div class="products-card-body">\<newline>      <h3 class="products-card-title">''
            @ card_title name fragmentData
            @ ''</h3>\<newline>      '' @ ?d1
            @ ''\<newline>      '' @ ?p1
            @ ''\<newline>      '' @ ?n1
            @ ''\<newline>    </div>\<newline>  ''\<close>
    by (simp add: cardContent1_def)
  have e2: \<open>innerHTML ?c2 =
            ''\<newline>    '' @ i2
            @ ''\<newline>    <div class="product-card-body">\<newline>      <h3 class="product-title">''
            @ card_title name fragmentData
            @ ''</h3>\<newline>      '' @ ?d2
            @ ''\<newline>      '' @ ?p2
            @ ''\<newline>      '' @ ?n2
            @ ''\<newline>      <div class="product-cta">\<newline>        <a href="#" class="product-cta-button">Find out more</a>\<newline>      </div>\<newline>    </div>\<newline>  ''\<close>
    by (simp add: cardContent2_def)
  have k1: "className ?c1 = ''products-card''" and k2: "className ?c2 = ''product-card''"
    by simp_all
  have h1: \<open>holds_block ''<div class="products-card-description"><p>'' ''</p></div>'' ?d ?d1\<close>
    \<open>holds_block ''<div class="products-card-promo"><p>'' ''</p></div>'' ?p ?p1\<close>
    \<open>holds_block ''<div class="products-card-notes"><p>'' ''</p></div>'' ?n ?n1\<close>
    using holds_paragraph_block [of "''products-card-description''" ?d]
      holds_paragraph_block [of "''products-card-promo''" ?p]
      holds_paragraph_block [of "''products-card-notes''" ?n]
    by simp_all
  show ?thesis
  proof (rule conjI)
    show \<open>\<exists>cardEl imageHtml title description promo notes.
        createProductCard1 name fragmentData = Inr cardEl
        \<and> className cardEl = ''products-card''
        \<and> innerHTML cardEl =
            ''\<newline>    '' @ imageHtml
            @ ''\<newline>    <div class="products-card-body">\<newline>      <h3 class="products-card-title">''
            @ title
            @ ''</h3>\<newline>      '' @ description
            @ ''\<newline>      '' @ promo
            @ ''\<newline>      '' @ notes
            @ ''\<newline>    </div>\<newline>  ''
        \<and> holds_block ''<div class="products-card-description"><p>'' ''</p></div>'' ?d description
        \<and> holds_block ''<div class="products-card-promo"><p>'' ''</p></div>'' ?p promo
        \<and> holds_block ''<div class="products-card-notes"><p>'' ''</p></div>'' ?n notes
        \<and> (no_encoded_gt ?d \<longrightarrow> description = paragraph_block ''products-card-description'' ?d)
        \<and> (no_encoded_gt ?p \<longrightarrow> promo = paragraph_block ''products-card-promo'' ?p)
        \<and> (no_encoded_gt ?n \<longrightarrow> notes = paragraph_block ''products-card-notes'' ?n)\<close>
      apply (rule exI [of _ ?c1], rule exI [of _ i1])
      apply (rule exI [of _ "card_title name fragmentData"])
      apply (rule exI [of _ ?d1], rule exI [of _ ?p1], rule exI [of _ ?n1])
      apply (intro conjI impI refl)
           apply (rule c1)
          apply (rule k1)
         apply (rule e1)
        apply (rule h1(1))
       apply (rule h1(2))
      apply (rule h1(3))
      done
    show \<open>\<exists>cardEl imageHtml title description promo notes.
        createProductCard2 name fragmentData = Inr cardEl
        \<and> className cardEl = ''product-card''
        \<and> innerHTML cardEl =
            ''\<newline>    '' @ imageHtml
            @ ''\<newline>    <div class="product-card-body">\<newline>      <h3 class="product-title">''
            @ title
            @ ''</h3>\<newline>      '' @ description
            @ ''\<newline>      '' @ promo
            @ ''\<newline>      '' @ notes
            @ ''\<newline>      <div class="product-cta">\<newline>        <a href="#" class="product-cta-button">Find out more</a>\<newline>      </div>\<newline>    </div>\<newline>  ''
        \<and> holds_block ''<div class="product-description">'' ''</div>'' ?d description
        \<and> holds_block ''<div class="product-promo">'' ''</div>'' ?p promo
        \<and> holds_block ''<div class="product-notes"><h4>Important numbers for new cards:</h4>''
            ''</div>'' ?n notes
        \<and> (no_encoded_gt ?d \<longrightarrow> description = description_block2 ?d)
        \<and> (no_encoded_gt ?p \<longrightarrow> promo = promo_block2 ?p)
        \<and> (no_encoded_gt ?n \<longrightarrow> notes = notes_block2 ?n)\<close>
      apply (rule exI [of _ ?c2], rule exI [of _ i2])
      apply (rule exI [of _ "card_title name fragmentData"])
      apply (rule exI [of _ ?d2], rule exI [of _ ?p2], rule exI [of _ ?n2])
      apply (intro conjI impI refl)
           apply (rule c2)
          apply (rule k2)
         apply (rule e2)
        apply (rule holds_description_block2)
       apply (rule holds_promo_block2)
      apply (rule holds_notes_block2)
      done
  qed
qed

lemma example_texts:
  "text_of (plaintext example_record ''creditCardDescription'') = ''Line one\<newline>\<newline>Line two''"
  "text_of (plaintext example_record ''promo'') = ''Rewards special offer: double points\<newline>Until June''"
  "text_of (plaintext example_record ''notes'') = ''Important numbers\<newline>APR 20 percent''"
  by (simp_all add: example_record_def plaintext_def text_of_def)

lemma example_no_encoded_gt:
  "no_encoded_gt ''Line one\<newline>\<newline>Line two''"
  "no_encoded_gt ''Rewards special offer: double points\<newline>Until June''"
  "no_encoded_gt ''Important numbers\<newline>APR 20 percent''"
  by (simp_all add: no_encoded_gt_def str_includes_def sublist_Cons_right)

lemma example_blocks1:
  \<open>paragraph_block ''products-card-description'' ''Line one\<newline>\<newline>Line two''
     = ''<div class="products-card-description"><p>Line one</p><p>Line two</p></div>''\<close>
  \<open>paragraph_block ''products-card-promo'' ''Rewards special offer: double points\<newline>Until June''
     = ''<div class="products-card-promo"><p>Rewards special offer: double points<br>Until June</p></div>''\<close>
  \<open>paragraph_block ''products-card-notes'' ''Important numbers\<newline>APR 20 percent''
     = ''<div class="products-card-notes"><p>Important numbers<br>APR 20 percent</p></div>''\<close>
  by (simp_all add: paragraph_block_def line_breaks_to_html_def trim_def is_whitespace_def)

lemma example_blocks2:
  \<open>description_block2 ''Line one\<newline>\<newline>Line two''
     = ''<div class="product-description">Line one\<newline>\<newline>Line two</div>''\<close>
  \<open>promo_block2 ''Rewards special offer: double points\<newline>Until June''
     = ''<div class="product-promo"><h4>Rewards special offer: double points</h4><p>Until June</p></div>''\<close>
  \<open>notes_block2 ''Important numbers\<newline>APR 20 percent''
     = ''<div class="product-notes"><h4>Important numbers for new cards:</h4><p>APR 20 percent</p></div>''\<close>
  by (simp_all add: description_block2_def promo_block2_def notes_block2_def trim_def
        is_whitespace_def non_blank_lines_def promo_element_def notes_paragraphs_def
        str_includes_def sublist_Cons_right)

theorem createProductCard_text_blocks_witness:
  \<open>truthy example_record \<and> well_formed example_record
   \<and> no_encoded_gt (text_of (plaintext example_record ''creditCardDescription''))
   \<and> no_encoded_gt (text_of (plaintext example_record ''promo''))
   \<and> no_encoded_gt (text_of (plaintext example_record ''notes''))
   \<and> (\<exists>cardEl imageHtml title.
         createProductCard1 ''Card A'' example_record = Inr cardEl
         \<and> innerHTML cardEl =
             ''\<newline>    '' @ imageHtml
             @ ''\<newline>    <div class="products-card-body">\<newline>      <h3 class="products-card-title">''
             @ title
             @ ''</h3>\<newline>      <div class="products-card-description"><p>Line one</p><p>Line two</p></div>\<newline>      <div class="products-card-promo"><p>Rewards special offer: double points<br>Until June</p></div>\<newline>      <div class="products-card-notes"><p>Important numbers<br>APR 20 percent</p></div>\<newline>    </div>\<newline>  '')
   \<and> (\<exists>cardEl imageHtml title.
         createProductCard2 ''Card A'' example_record = Inr cardEl
         \<and> innerHTML cardEl =
             ''\<newline>    '' @ imageHtml
             @ ''\<newline>    <div class="product-card-body">\<newline>      <h3 class="product-title">''
             @ title
             @ ''</h3>\<newline>      <div class="product-description">Line one\<newline>\<newline>Line two</div>\<newline>      <div class="product-promo"><h4>Rewards special offer: double points</h4><p>Until June</p></div>\<newline>      <div class="product-notes"><h4>Important numbers for new cards:</h4><p>APR 20 percent</p></div>\<newline>      <div class="product-cta">\<newline>        <a href="#" class="product-cta-button">Find out more</a>\<newline>      </div>\<newline>    </div>\<newline>  '')\<close>
proof -
  have e: "truthy example_record" "well_formed example_record"
    by (simp_all add: example_record_well_formed)
  have g: "no_encoded_gt (text_of (plaintext example_record ''creditCardDescription''))"
    "no_encoded_gt (text_of (plaintext example_record ''promo''))"
    "no_encoded_gt (text_of (plaintext example_record ''notes''))"
    by (simp_all add: example_texts example_no_encoded_gt)
  from createProductCard_text_blocks [OF e, of "''Card A''"] g
  obtain a1 i1 t1 d1 p1 n1 a2 i2 t2 d2 p2 n2 where a:
    "createProductCard1 ''Card A'' example_record = Inr a1"
    \<open>innerHTML a1 =
        ''\<newline>    '' @ i1
        @ ''\<newline>    <div class="products-card-body">\<newline>      <h3 class="products-card-title">''
        @ t1
        @ ''</h3>\<newline>      '' @ d1
        @ ''\<newline>      '' @ p1
        @ ''\<newline>      '' @ n1
        @ ''\<newline>    </div>\<newline>  ''\<close>
    "d1 = paragraph_block ''products-card-description''
            (text_of (plaintext example_record ''creditCardDescription''))"
    "p1 = paragraph_block ''products-card-promo'' (text_of (plaintext example_record ''promo''))"
    "n1 = paragraph_block ''products-card-notes'' (text_of (plaintext example_record ''notes''))"
    "createProductCard2 ''Card A'' example_record = Inr a2"
    \<open>innerHTML a2 =
        ''\<newline>    '' @ i2
        @ ''\<newline>    <div class="product-card-body">\<newline>      <h3 class="product-title">''
        @ t2
        @ ''</h3>\<newline>      '' @ d2
        @ ''\<newline>      '' @ p2
        @ ''\<newline>      '' @ n2
        @ ''\<newline>      <div class="product-cta">\<newline>        <a href="#" class="product-cta-button">Find out more</a>\<newline>      </div>\<newline>    </div>\<newline>  ''\<close>
    "d2 = description_block2 (text_of (plaintext example_record ''creditCardDescription''))"
    "p2 = promo_block2 (text_of (plaintext example_record ''promo''))"
    "n2 = notes_block2 (text_of (plaintext example_record ''notes''))"
    by blast
  have first: \<open>\<exists>cardEl imageHtml title.
         createProductCard1 ''Card A'' example_record = Inr cardEl
         \<and> innerHTML cardEl =
             ''\<newline>    '' @ imageHtml
             @ ''\<newline>    <div class="products-card-body">\<newline>      <h3 class="products-card-title">''
             @ title
             @ ''</h3>\<newline>      <div class="products-card-description"><p>Line one</p><p>Line two</p></div>\<newline>      <div class="products-card-promo"><p>Rewards special offer: double points<br>Until June</p></div>\<newline>      <div class="products-card-notes"><p>Important numbers<br>APR 20 percent</p></div>\<newline>    </div>\<newline>  ''\<close>
    apply (rule exI [of _ a1], rule exI [of _ i1], rule exI [of _ t1])
    apply (simp add: a example_texts example_blocks1)
    done
  have second: \<open>\<exists>cardEl imageHtml title.
         createProductCard2 ''Card A'' example_record = Inr cardEl
         \<and> innerHTML cardEl =
             ''\<newline>    '' @ imageHtml
             @ ''\<newline>    <div class="product-card-body">\<newline>      <h3 class="product-title">''
             @ title
             @ ''</h3>\<newline>      <div class="product-description">Line one\<newline>\<newline>Line two</div>\<newline>      <div class="product-promo"><h4>Rewards special offer: double points</h4><p>Until June</p></div>\<newline>      <div class="product-notes"><h4>Important numbers for new cards:</h4><p>APR 20 percent</p></div>\<newline>      <div class="product-cta">\<newline>        <a href="#" class="product-cta-button">Find out more</a>\<newline>      </div>\<newline>    </div>\<newline>  ''\<close>
    apply (rule exI [of _ a2], rule exI [of _ i2], rule exI [of _ t2])
    apply (simp add: a example_texts example_blocks2)
    done
  show ?thesis
    using e g first second by (intro conjI)
qed

text \<open>
  The claim as first stated fails: the second revision keeps the line break of a
  description where the specified formatting converts it, and neither revision decodes
  an encoded \<^verbatim>\<open>>\<close>.
\<close>

theorem createProductCard_text_not_as_specified:
  \<open>createProductCard2 ''Card A''
      (JObj [(''creditCardDescription'', JObj [(''plaintext'', JStr ''a\<newline>b'')])])
     = Inr \<lparr>className = ''product-card'',
            innerHTML = ''\<newline>    \<newline>    <div class="product-card-body">\<newline>      <h3 class="product-title">Card A</h3>\<newline>      <div class="product-description">a\<newline>b</div>\<newline>      \<newline>      \<newline>      <div class="product-cta">\<newline>        <a href="#" class="product-cta-button">Find out more</a>\<newline>      </div>\<newline>    </div>\<newline>  ''\<rparr>
   \<and> specified_format ''a\<newline>b'' = ''a<br>b''
   \<and> createProductCard1 ''Card A''
      (JObj [(''creditCardDescription'', JObj [(''plaintext'', JStr ''1 &gt; 0'')])])
     = Inr \<lparr>className = ''products-card'',
            innerHTML = ''\<newline>    \<newline>    <div class="products-card-body">\<newline>      <h3 class="products-card-title">Card A</h3>\<newline>      <div class="products-card-description"><p>1 &gt; 0</p></div>\<newline>      \<newline>      \<newline>    </div>\<newline>  ''\<rparr>
   \<and> specified_format ''1 &gt; 0'' = ''1 > 0''\<close>
  by (simp add: createProductCard1_def createProductCard2_def imageHtml1_def imageHtml2_def
        and_then_def js_or_def text_block1_def text_block2_def formatText1_def formatText2_def
        Let_def specified_format_def line_breaks_to_html_def trim_def is_whitespace_def
        cardContent1_def cardContent2_def)

subsection \<open>Orchestrator\<close>

lemma those_map_Some: "those (map Some vs) = Some vs"
  by (induction vs) simp_all

lemma those_None: "None \<in> set slots \<Longrightarrow> those slots = None"
  by (induction slots) (auto split: option.splits)

lemma settle_fulfilled:
  assumes "length vals = length tasks" and "length slots = length tasks"
    and "\<forall>i<length tasks. snd (tasks ! i) = Inr (vals ! i)"
    and "\<forall>i<length tasks. slots ! i = None \<or> slots ! i = Some (vals ! i)"
  shows "snd (settle tasks schedule slots evs) =
           (if \<forall>i<length tasks. slots ! i \<noteq> None \<or> i \<in> set schedule
            then Fulfilled vals else Pending)"
  using assms
proof (induction schedule arbitrary: slots evs)
  case Nil
  show ?case
  proof (cases "\<forall>i<length tasks. slots ! i \<noteq> None")
    case True
    with Nil have "slots = map Some vals"
      by (auto simp add: list_eq_iff_nth_eq)
    then show ?thesis using True by (simp add: those_map_Some)
  next
    case False
    then obtain i where "i < length tasks" "slots ! i = None" by auto
    with Nil have "None \<in> set slots" by (metis nth_mem)
    then show ?thesis using False by (simp add: those_None)
  qed
next
  case (Cons i schedule)
  show ?case
  proof (cases "i < length tasks \<and> slots ! i = None")
    case True
    with Cons.prems obtain settled where t: "tasks ! i = (settled, Inr (vals ! i))"
      by (metis prod.collapse)
    let ?slots = "slots[i := Some (vals ! i)]"
    have "snd (settle tasks schedule ?slots (evs @ settled)) =
            (if \<forall>j<length tasks. ?slots ! j \<noteq> None \<or> j \<in> set schedule
             then Fulfilled vals else Pending)"
    proof (intro Cons.IH)
      show "length vals = length tasks" by (rule Cons.prems(1))
      show "length ?slots = length tasks" using Cons.prems(2) by simp
      show "\<forall>i<length tasks. snd (tasks ! i) = Inr (vals ! i)" by (rule Cons.prems(3))
      show "\<forall>j<length tasks. ?slots ! j = None \<or> ?slots ! j = Some (vals ! j)"
      proof (intro allI impI)
        fix j assume j: "j < length tasks"
        show "?slots ! j = None \<or> ?slots ! j = Some (vals ! j)"
          using Cons.prems(2,4) j by (cases "j = i") simp_all
      qed
    qed
    moreover have "(\<forall>j<length tasks. ?slots ! j \<noteq> None \<or> j \<in> set schedule)
                 = (\<forall>j<length tasks. slots ! j \<noteq> None \<or> j \<in> set (i # schedule))"
      using Cons.prems(2) True by (auto simp add: nth_list_update)
    ultimately show ?thesis using True t Cons.prems(2) by simp
  next
    case False
    have "snd (settle tasks schedule slots evs) =
            (if \<forall>j<length tasks. slots ! j \<noteq> None \<or> j \<in> set schedule
             then Fulfilled vals else Pending)"
      using Cons.prems by (intro Cons.IH)
    moreover have "(\<forall>j<length tasks. slots ! j \<noteq> None \<or> j \<in> set schedule)
                 = (\<forall>j<length tasks. slots ! j \<noteq> None \<or> j \<in> set (i # schedule))"
      using False by auto
    ultimately show ?thesis using False Cons.prems(2) by auto
  qed
qed

lemma Promise_all_fulfilled:
  assumes "length vals = length tasks"
    and "\<forall>i<length tasks. snd (tasks ! i) = Inr (vals ! i)"
  shows "snd (Promise_all tasks schedule) =
           (if all_settle schedule (length tasks) then Fulfilled vals else Pending)"
  using settle_fulfilled [of vals tasks "replicate (length tasks) None" schedule "[]"] assms
  by (simp add: Promise_all_def all_settle_def list_all_iff)


lemma foldl_appendChild: "foldl appendChild nodes cards = nodes @ cards"
  by (induction cards arbitrary: nodes) (simp_all add: appendChild_def)

lemma process_item1_settles:
  "snd (snd (process_item1 fetch index item)) = Inr (card_of_item1 fetch item)"
  by (cases "getProductDataByContentPath fetch (fragmentPath item)")
     (simp add: process_item1_def card_of_item1_def createProductCard1_falsy
        split: sum.splits)

lemma process_item2_settles:
  "snd (snd (process_item2 fetch index item)) = Inr (card_of_item2 fetch item)"
  by (cases "getProductDataByContentPath fetch (fragmentPath item)")
     (simp add: process_item2_def card_of_item2_def createProductCard2_falsy
        split: sum.splits)

lemma started1_settle:
  "\<forall>i < length (map snd (map (\<lambda>(index, item). process_item1 (net index) index item)
                              (enumerate 0 items))).
     snd (map snd (map (\<lambda>(index, item). process_item1 (net index) index item)
                     (enumerate 0 items)) ! i)
       = Inr (cards_of_items1 net items ! i)"
  by (simp add: cards_of_items1_def nth_enumerate_eq process_item1_settles)

lemma started2_settle:
  "\<forall>i < length (map snd (map (\<lambda>(index, item). process_item2 (net index) index item)
                              (enumerate 0 items))).
     snd (map snd (map (\<lambda>(index, item). process_item2 (net index) index item)
                     (enumerate 0 items)) ! i)
       = Inr (cards_of_items2 net items ! i)"
  by (simp add: cards_of_items2_def nth_enumerate_eq process_item2_settles)

lemma Promise_all_started1:
  "snd (Promise_all (map snd (map (\<lambda>(index, item). process_item1 (net index) index item)
                                (enumerate 0 items))) schedule)
     = (if all_settle schedule (length items) then Fulfilled (cards_of_items1 net items)
        else Pending)"
  using Promise_all_fulfilled [OF _ started1_settle, of net items schedule]
  by (simp add: cards_of_items1_def)

lemma Promise_all_started2:
  "snd (Promise_all (map snd (map (\<lambda>(index, item). process_item2 (net index) index item)
                                (enumerate 0 items))) schedule)
     = (if all_settle schedule (length items) then Fulfilled (cards_of_items2 net items)
        else Pending)"
  using Promise_all_fulfilled [OF _ started2_settle, of net items schedule]
  by (simp add: cards_of_items2_def)

lemma decorate1_content:
  \<open>content (decorate1 net schedule block) =
     (if parseProductItems (children block) = [] then InnerHTML ''<p>No products to display</p>''
      else if all_settle schedule (length (parseProductItems (children block)))
      then ChildNodes [Ul ''products-list''
                         (cards_of_items1 net (parseProductItems (children block)))]
      else InnerHTML ''<div class="products-loading">Loading products...</div>'')\<close>
proof -
  obtain settled p where sp:
    "Promise_all (map snd (map (\<lambda>(index, item). process_item1 (net index) index item)
                            (enumerate 0 (parseProductItems (children block))))) schedule
       = (settled, p)"
    by (cases "Promise_all (map snd (map (\<lambda>(index, item). process_item1 (net index) index item)
                            (enumerate 0 (parseProductItems (children block))))) schedule")
  with Promise_all_started1 [of net "parseProductItems (children block)" schedule]
  have p: "p = (if all_settle schedule (length (parseProductItems (children block)))
                then Fulfilled (cards_of_items1 net (parseProductItems (children block)))
                else Pending)"
    by simp
  show ?thesis
    by (simp add: decorate1_def Let_def sp p foldl_appendChild del: map_map)
qed

lemma decorate2_content:
  \<open>content (decorate2 net schedule block) =
     (if parseProductItems (children block) = [] then InnerHTML ''<p>No products to display</p>''
      else if all_settle schedule (length (parseProductItems (children block)))
      then ChildNodes [Div \<lparr>className = ''products-title'',
                              innerHTML = ''<h2>Your card options</h2>''\<rparr>,
                       Ul [] (cards_of_items2 net (parseProductItems (children block)))]
      else InnerHTML ''<div class="products-loading">Loading products...</div>'')\<close>
proof -
  obtain settled p where sp:
    "Promise_all (map snd (map (\<lambda>(index, item). process_item2 (net index) index item)
                            (enumerate 0 (parseProductItems (children block))))) schedule
       = (settled, p)"
    by (cases "Promise_all (map snd (map (\<lambda>(index, item). process_item2 (net index) index item)
                            (enumerate 0 (parseProductItems (children block))))) schedule")
  with Promise_all_started2 [of net "parseProductItems (children block)" schedule]
  have p: "p = (if all_settle schedule (length (parseProductItems (children block)))
                then Fulfilled (cards_of_items2 net (parseProductItems (children block)))
                else Pending)"
    by simp
  show ?thesis
    by (simp add: decorate2_def Let_def sp p foldl_appendChild del: map_map)
qed


lemma and_then_Inl: "and_then (Inl error) f = Inl error"
  by (simp add: and_then_def)

lemma fetch_fails_rejects:
  "fetch_fails fetch contentPath \<Longrightarrow>
   \<exists>error. snd (getProductDataByContentPath fetch contentPath) = Inl error"
  by (cases "fetch \<lparr>url = AEM_AUTHOR_URL @ GRAPHQL_ENDPOINT @ contentPath,
                      options = \<lparr>credentials = ''include''\<rparr>\<rparr>")
     (auto simp add: fetch_fails_def fetch_rejects dest: fetch_not_ok)

lemma card_of_item1_fallback:
  "fetch_fails fetch (fragmentPath item) \<Longrightarrow>
   card_of_item1 fetch item
     = \<lparr>className = ''products-card'', innerHTML = fallback_html1 (productName item)\<rparr>"
  by (auto simp add: card_of_item1_def and_then_Inl dest!: fetch_fails_rejects)

lemma card_of_item2_fallback:
  "fetch_fails fetch (fragmentPath item) \<Longrightarrow>
   card_of_item2 fetch item
     = \<lparr>className = ''product-card product-error'',
         innerHTML = fallback_html2 (productName item)\<rparr>"
  by (auto simp add: card_of_item2_def and_then_Inl dest!: fetch_fails_rejects)

lemma cards_of_items1_nth:
  "j < length items \<Longrightarrow> cards_of_items1 net items ! j = card_of_item1 (net j) (items ! j)"
  by (simp add: cards_of_items1_def nth_enumerate_eq)

lemma cards_of_items2_nth:
  "j < length items \<Longrightarrow> cards_of_items2 net items ! j = card_of_item2 (net j) (items ! j)"
  by (simp add: cards_of_items2_def nth_enumerate_eq)

lemma length_cards_of_items:
  "length (cards_of_items1 net items) = length items"
  "length (cards_of_items2 net items) = length items"
  by (simp_all add: cards_of_items1_def cards_of_items2_def)

text \<open>
  C1. When the fetch for one parsed item fails (the request is rejected, or the status is
  outside 200 to 299), \<open>decorate\<close> catches the failure at that item: once every fetch has
  settled the block holds the list with one card per item, the card of the failed item
  being the fallback card and every other card being the card of its own item. For every
  block, network and order of settling the content of the block is never the error
  paragraph.
\<close>

theorem decorate_isolates_failed_fetch:
  assumes "i < length (parseProductItems (children block))"
    and "fetch_fails (net i) (fragmentPath (parseProductItems (children block) ! i))"
    and "all_settle schedule (length (parseProductItems (children block)))"
  shows
    \<open>content (decorate1 net schedule block)
       = ChildNodes [Ul ''products-list''
                       (cards_of_items1 net (parseProductItems (children block)))]
     \<and> content (decorate2 net schedule block)
       = ChildNodes [Div \<lparr>className = ''products-title'',
                            innerHTML = ''<h2>Your card options</h2>''\<rparr>,
                     Ul [] (cards_of_items2 net (parseProductItems (children block)))]
     \<and> length (cards_of_items1 net (parseProductItems (children block)))
       = length (parseProductItems (children block))
     \<and> length (cards_of_items2 net (parseProductItems (children block)))
       = length (parseProductItems (children block))
     \<and> cards_of_items1 net (parseProductItems (children block)) ! i
       = \<lparr>className = ''products-card'',
           innerHTML = fallback_html1 (productName (parseProductItems (children block) ! i))\<rparr>
     \<and> cards_of_items2 net (parseProductItems (children block)) ! i
       = \<lparr>className = ''product-card product-error'',
           innerHTML = fallback_html2 (productName (parseProductItems (children block) ! i))\<rparr>
     \<and> (\<forall>j < length (parseProductItems (children block)).
           cards_of_items1 net (parseProductItems (children block)) ! j
             = card_of_item1 (net j) (parseProductItems (children block) ! j)
           \<and> cards_of_items2 net (parseProductItems (children block)) ! j
             = card_of_item2 (net j) (parseProductItems (children block) ! j))
     \<and> content (decorate1 net any_schedule block)
       \<noteq> InnerHTML ''<p class="products-error">Failed to load products. Please try again later.</p>''
     \<and> content (decorate2 net any_schedule block)
       \<noteq> InnerHTML ''<p class="products-error">Failed to load products. Please try again later.</p>''\<close>
proof -
  from assms(1) have ne: "parseProductItems (children block) \<noteq> []" by auto
  show ?thesis
    using assms ne
    by (simp add: decorate1_content decorate2_content length_cards_of_items
          cards_of_items1_nth cards_of_items2_nth card_of_item1_fallback
          card_of_item2_fallback)
qed

lemma example_items:
  "parseProductItems (children example_block)
     = [\<lparr>productName = ''Card A'', fragmentPath = ''/path/a''\<rparr>,
        \<lparr>productName = ''Card B'', fragmentPath = ''/path/b''\<rparr>]"
  by (simp add: example_block_def parseProductItems_def parse_row_def str_or_def trim_def
        is_whitespace_def)

lemma example_fetch_fails: "fetch_fails (example_net 1) ''/path/b''"
  by (simp add: fetch_fails_def example_net_def)

lemma example_all_settle: "all_settle [1, 0] 2" "all_settle [0, 1] 2"
  by (simp_all add: all_settle_def upt_rec)

theorem decorate_isolates_failed_fetch_witness:
  \<open>1 < length (parseProductItems (children example_block))
   \<and> fetch_fails (example_net 1) (fragmentPath (parseProductItems (children example_block) ! 1))
   \<and> all_settle [1, 0] (length (parseProductItems (children example_block)))
   \<and> content (decorate1 example_net [1, 0] example_block)
       = ChildNodes [Ul ''products-list''
           [card_of_item1 (example_net 0) \<lparr>productName = ''Card A'', fragmentPath = ''/path/a''\<rparr>,
            \<lparr>className = ''products-card'', innerHTML = fallback_html1 ''Card B''\<rparr>]]
   \<and> content (decorate2 example_net [1, 0] example_block)
       = ChildNodes [Div \<lparr>className = ''products-title'',
                            innerHTML = ''<h2>Your card options</h2>''\<rparr>,
           Ul [] [card_of_item2 (example_net 0) \<lparr>productName = ''Card A'', fragmentPath = ''/path/a''\<rparr>,
                  \<lparr>className = ''product-card product-error'',
                   innerHTML = fallback_html2 ''Card B''\<rparr>]]\<close>
proof -
  have h1: "1 < length (parseProductItems (children example_block))"
    by (simp add: example_items)
  have h2: "fetch_fails (example_net 1)
              (fragmentPath (parseProductItems (children example_block) ! 1))"
    using example_fetch_fails by (simp add: example_items)
  have h3: "all_settle [1, 0] (length (parseProductItems (children example_block)))"
    by (simp add: example_items all_settle_def)
  have cards1: "cards_of_items1 example_net
        [\<lparr>productName = ''Card A'', fragmentPath = ''/path/a''\<rparr>,
         \<lparr>productName = ''Card B'', fragmentPath = ''/path/b''\<rparr>]
      = [card_of_item1 (example_net 0) \<lparr>productName = ''Card A'', fragmentPath = ''/path/a''\<rparr>,
         card_of_item1 (example_net 1) \<lparr>productName = ''Card B'', fragmentPath = ''/path/b''\<rparr>]"
    by (simp add: cards_of_items1_def)
  have cards2: "cards_of_items2 example_net
        [\<lparr>productName = ''Card A'', fragmentPath = ''/path/a''\<rparr>,
         \<lparr>productName = ''Card B'', fragmentPath = ''/path/b''\<rparr>]
      = [card_of_item2 (example_net 0) \<lparr>productName = ''Card A'', fragmentPath = ''/path/a''\<rparr>,
         card_of_item2 (example_net 1) \<lparr>productName = ''Card B'', fragmentPath = ''/path/b''\<rparr>]"
    by (simp add: cards_of_items2_def)
  show ?thesis
    using h1 h2 h3
      decorate_isolates_failed_fetch
        [where i = 1 and block = example_block and net = example_net and schedule = "[1, 0]",
         OF h1 h2 h3]
    by (simp add: cards1 cards2 example_items)
qed


text \<open>
  C10. For every non-empty list of parsed items, once every fetch has settled the rendered
  list holds exactly one card per parsed item, the card at each position being the card of
  the item at that position, whatever the order in which the fetches settle: two orders
  of settling give the same content, and no card is dropped.
\<close>

theorem decorate_one_card_per_item_in_order:
  assumes "parseProductItems (children block) \<noteq> []"
    and "all_settle schedule (length (parseProductItems (children block)))"
    and "all_settle schedule' (length (parseProductItems (children block)))"
  shows
    \<open>content (decorate1 net schedule block)
       = ChildNodes [Ul ''products-list''
                       (cards_of_items1 net (parseProductItems (children block)))]
     \<and> content (decorate2 net schedule block)
       = ChildNodes [Div \<lparr>className = ''products-title'',
                            innerHTML = ''<h2>Your card options</h2>''\<rparr>,
                     Ul [] (cards_of_items2 net (parseProductItems (children block)))]
     \<and> content (decorate1 net schedule' block) = content (decorate1 net schedule block)
     \<and> content (decorate2 net schedule' block) = content (decorate2 net schedule block)
     \<and> length (cards_of_items1 net (parseProductItems (children block)))
       = length (parseProductItems (children block))
     \<and> length (cards_of_items2 net (parseProductItems (children block)))
       = length (parseProductItems (children block))
     \<and> (\<forall>j < length (parseProductItems (children block)).
           cards_of_items1 net (parseProductItems (children block)) ! j
             = card_of_item1 (net j) (parseProductItems (children block) ! j)
           \<and> cards_of_items2 net (parseProductItems (children block)) ! j
             = card_of_item2 (net j) (parseProductItems (children block) ! j))\<close>
  using assms
  by (simp add: decorate1_content decorate2_content length_cards_of_items
        cards_of_items1_nth cards_of_items2_nth)

theorem decorate_one_card_per_item_in_order_witness:
  \<open>parseProductItems (children example_block) \<noteq> []
   \<and> all_settle [1, 0] (length (parseProductItems (children example_block)))
   \<and> all_settle [0, 1] (length (parseProductItems (children example_block)))
   \<and> content (decorate1 example_net [1, 0] example_block)
       = ChildNodes [Ul ''products-list''
           [card_of_item1 (example_net 0) \<lparr>productName = ''Card A'', fragmentPath = ''/path/a''\<rparr>,
            card_of_item1 (example_net 1) \<lparr>productName = ''Card B'', fragmentPath = ''/path/b''\<rparr>]]
   \<and> content (decorate1 example_net [0, 1] example_block)
       = content (decorate1 example_net [1, 0] example_block)
   \<and> content (decorate2 example_net [0, 1] example_block)
       = content (decorate2 example_net [1, 0] example_block)\<close>
proof -
  have h1: "parseProductItems (children example_block) \<noteq> []"
    by (simp add: example_items)
  have h2: "all_settle [1, 0] (length (parseProductItems (children example_block)))"
    by (simp add: example_items all_settle_def)
  have h3: "all_settle [0, 1] (length (parseProductItems (children example_block)))"
    by (simp add: example_items all_settle_def)
  have cards1: "cards_of_items1 example_net
        [\<lparr>productName = ''Card A'', fragmentPath = ''/path/a''\<rparr>,
         \<lparr>productName = ''Card B'', fragmentPath = ''/path/b''\<rparr>]
      = [card_of_item1 (example_net 0) \<lparr>productName = ''Card A'', fragmentPath = ''/path/a''\<rparr>,
         card_of_item1 (example_net 1) \<lparr>productName = ''Card B'', fragmentPath = ''/path/b''\<rparr>]"
    by (simp add: cards_of_items1_def)
  show ?thesis
    using h1 h2 h3
      decorate_one_card_per_item_in_order
        [where block = example_block and net = example_net and schedule = "[1, 0]"
           and schedule' = "[0, 1]", OF h1 h2 h3]
    by (simp add: cards1 example_items)
qed

text \<open>
  C9 does not hold of the code. For a block with the one row \<^verbatim>\<open>Card A\<close>, \<^verbatim>\<open>/path/a\<close> and
  a network that rejects the request, both revisions render one fallback card and make
  no call of \<^verbatim>\<open>moveInstrumentation\<close>: the card is built in the \<^verbatim>\<open>catch\<close>, which
  does not call it. The fallback card for a response without a record is built in the
  \<^verbatim>\<open>try\<close> and gets its one call.
\<close>

theorem decorate_fallback_card_not_instrumented:
  \<open>decorate1 (\<lambda>index request. Rejects (TypeError ''Failed to fetch'')) [0]
       \<lparr>children = [[''Card A'', ''/path/a'']], style_display = []\<rparr>
     = \<lparr>display = [],
        content = ChildNodes [Ul ''products-list''
                    [\<lparr>className = ''products-card'', innerHTML = fallback_html1 ''Card A''\<rparr>]],
        events = [Fetch \<lparr>url = AEM_AUTHOR_URL @ GRAPHQL_ENDPOINT @ ''/path/a'',
                         options = \<lparr>credentials = ''include''\<rparr>\<rparr>]\<rparr>
   \<and> decorate2 (\<lambda>index request. Rejects (TypeError ''Failed to fetch'')) [0]
       \<lparr>children = [[''Card A'', ''/path/a'']], style_display = []\<rparr>
     = \<lparr>display = [],
        content = ChildNodes [Div \<lparr>className = ''products-title'',
                                   innerHTML = ''<h2>Your card options</h2>''\<rparr>,
                    Ul [] [\<lparr>className = ''product-card product-error'',
                            innerHTML = fallback_html2 ''Card A''\<rparr>]],
        events = [Fetch \<lparr>url = AEM_AUTHOR_URL @ GRAPHQL_ENDPOINT @ ''/path/a'',
                         options = \<lparr>credentials = ''include''\<rparr>\<rparr>]\<rparr>
   \<and> decorate1 (\<lambda>index request. Resolves \<lparr>status = 200, statusText = ''OK'',
                                           json = Inr (JObj [(''data'', JObj [])])\<rparr>) [0]
       \<lparr>children = [[''Card A'', ''/path/a'']], style_display = []\<rparr>
     = \<lparr>display = [],
        content = ChildNodes [Ul ''products-list''
                    [\<lparr>className = ''products-card'', innerHTML = fallback_html1 ''Card A''\<rparr>]],
        events = [Fetch \<lparr>url = AEM_AUTHOR_URL @ GRAPHQL_ENDPOINT @ ''/path/a'',
                         options = \<lparr>credentials = ''include''\<rparr>\<rparr>,
                  MoveInstrumentation 0]\<rparr>\<close>
  by (simp add: decorate1_def decorate2_def parseProductItems_def parse_row_def str_or_def
        trim_def is_whitespace_def Let_def process_item1_def process_item2_def
        getProductDataByContentPath_def read_response_def ok_def and_then_def js_or_def
        createProductCard1_falsy createProductCard2_falsy Promise_all_def appendChild_def)

end
